theory Spec2Isabelle
  imports Main "HOL-Library.Word"
begin

unbundle bit_operations_syntax

section \<open>Python values\<close>

subsection \<open>Strings\<close>

text \<open>
  A Python \<^verbatim>\<open>str\<close> is a sequence of Unicode code points, so a string is a list of
  natural numbers. \<open>py\<close> turns an ASCII literal of the source into that form.
\<close>

type_synonym pychar = nat
type_synonym pystr = "pychar list"

definition py :: "string \<Rightarrow> pystr" where
  "py s = map of_char s"

text \<open>
  The Unicode character database is large and changes between interpreter versions.
  The classes the regular expressions use are written out for the code points below 256
  and taken from a table \<open>ucd\<close> above them: \<open>decimal_hi\<close> gives the digit value
  of a decimal digit (category Nd), \<open>alnum_hi\<close> says whether a code point is any other
  alphanumeric character.
\<close>

record ucd =
  decimal_hi :: "pychar \<Rightarrow> nat option"
  alnum_hi :: "pychar \<Rightarrow> bool"

text \<open>\<^verbatim>\<open>str.isspace\<close>, the characters \<^verbatim>\<open>str.strip()\<close> removes.\<close>

definition is_space :: "pychar \<Rightarrow> bool" where
  "is_space c \<longleftrightarrow>
     (9 \<le> c \<and> c \<le> 13) \<or> (28 \<le> c \<and> c \<le> 32) \<or> c = 133 \<or> c = 160 \<or> c = 5760 \<or>
     (8192 \<le> c \<and> c \<le> 8202) \<or> c = 8232 \<or> c = 8233 \<or> c = 8239 \<or> c = 8287 \<or> c = 12288"

text \<open>The value of a decimal digit, the characters \<^verbatim>\<open>\d\<close> matches.\<close>

definition digit_value :: "ucd \<Rightarrow> pychar \<Rightarrow> nat option" where
  "digit_value U c =
     (if c < 256 then (if 48 \<le> c \<and> c \<le> 57 then Some (c - 48) else None)
      else decimal_hi U c)"

definition is_decimal :: "ucd \<Rightarrow> pychar \<Rightarrow> bool" where
  "is_decimal U c \<longleftrightarrow> digit_value U c \<noteq> None"

text \<open>
  The letters and other numeric characters among the code points below 256: the ASCII
  letters, the ordinal indicators, the micro sign, superscript digits, vulgar fractions
  and the accented Latin letters.
\<close>

definition latin1_alnum :: "pychar \<Rightarrow> bool" where
  "latin1_alnum c \<longleftrightarrow>
     (65 \<le> c \<and> c \<le> 90) \<or> (97 \<le> c \<and> c \<le> 122) \<or> c = 170 \<or> c = 178 \<or> c = 179 \<or>
     c = 181 \<or> c = 185 \<or> c = 186 \<or> (188 \<le> c \<and> c \<le> 190) \<or> (192 \<le> c \<and> c \<le> 214) \<or>
     (216 \<le> c \<and> c \<le> 246) \<or> (248 \<le> c \<and> c \<le> 255)"

text \<open>The word characters, which \<^verbatim>\<open>\w\<close> matches and \<^verbatim>\<open>\b\<close> is defined by.\<close>

definition is_word :: "ucd \<Rightarrow> pychar \<Rightarrow> bool" where
  "is_word U c \<longleftrightarrow>
     c = 95 \<or> is_decimal U c \<or> (if c < 256 then latin1_alnum c else alnum_hi U c)"

text \<open>\<^verbatim>\<open>s.strip()\<close>\<close>

definition py_strip :: "pystr \<Rightarrow> pystr" where
  "py_strip s = rev (dropWhile is_space (rev (dropWhile is_space s)))"

text \<open>\<^verbatim>\<open>s.find(c)\<close> and \<^verbatim>\<open>s.rfind(c)\<close> for a single character: the index, or -1.\<close>

definition py_find :: "pystr \<Rightarrow> pychar \<Rightarrow> int" where
  "py_find s c = (if c \<in> set s then int (length (takeWhile (\<lambda>x. x \<noteq> c) s)) else - 1)"

definition py_rfind :: "pystr \<Rightarrow> pychar \<Rightarrow> int" where
  "py_rfind s c =
     (if c \<in> set s then int (length s) - 1 - int (length (takeWhile (\<lambda>x. x \<noteq> c) (rev s)))
      else - 1)"

text \<open>\<^verbatim>\<open>s[i:j]\<close>, with Python's reading of negative and oversized bounds.\<close>

definition slice_bound :: "nat \<Rightarrow> int \<Rightarrow> nat" where
  "slice_bound n i = (if i < 0 then nat (int n + i) else min n (nat i))"

definition py_slice :: "'a list \<Rightarrow> int \<Rightarrow> int \<Rightarrow> 'a list" where
  "py_slice s i j = drop (slice_bound (length s) i) (take (slice_bound (length s) j) s)"

text \<open>\<^verbatim>\<open>s.startswith(p)\<close>\<close>

fun startswith :: "pystr \<Rightarrow> pystr \<Rightarrow> bool" where
  "startswith s [] = True"
| "startswith [] (p # ps) = False"
| "startswith (c # cs) (p # ps) = (c = p \<and> startswith cs ps)"

text \<open>\<^verbatim>\<open>p in s\<close> for two strings: \<open>p\<close> occurs in \<open>s\<close> as a substring.\<close>

fun py_substring :: "pystr \<Rightarrow> pystr \<Rightarrow> bool" where
  "py_substring p [] = (p = [])"
| "py_substring p (c # cs) = (startswith (c # cs) p \<or> py_substring p cs)"

text \<open>\<^verbatim>\<open>sep.join(parts)\<close>\<close>

fun py_join :: "pystr \<Rightarrow> pystr list \<Rightarrow> pystr" where
  "py_join sep [] = []"
| "py_join sep [x] = x"
| "py_join sep (x # y # ys) = x @ sep @ py_join sep (y # ys)"

subsection \<open>Values and exceptions\<close>

text \<open>
  The values the program handles are those of a decoded JSON document: the product
  records, the sections in them, and whatever \<^verbatim>\<open>json.loads\<close> returns for a reply.
  A \<^verbatim>\<open>dict\<close> keeps its keys in insertion order and is an association list here.
  The program never computes with a \<^verbatim>\<open>float\<close>, it only passes one on or tests it for
  zero, so a float is kept as its 64 bits.
\<close>

datatype json =
    JNull
  | JBool bool
  | JInt int
  | JFloat "64 word"
  | JStr pystr
  | JArr "json list"
  | JObj "(pystr \<times> json) list"

text \<open>
  The exceptions that can be raised. \<open>LibraryError\<close> stands for any exception raised
  inside a library call (the HTTP client, the HTML parser, the LLM client), kept with its
  message. Every one of them is an \<^verbatim>\<open>Exception\<close>, which the handlers of the program
  catch.
\<close>

datatype exn =
    KeyError pystr
  | TypeError
  | AttributeError
  | IndexError
  | ValueError
  | JSONDecodeError
  | LibraryError pystr

text \<open>Sequencing two steps of which the first may raise.\<close>

definition bind :: "exn + 'a \<Rightarrow> ('a \<Rightarrow> exn + 'b) \<Rightarrow> exn + 'b" where
  "bind m f = (case m of Inl e \<Rightarrow> Inl e | Inr v \<Rightarrow> f v)"

text \<open>
  What the interpreter and its libraries supply: the Unicode tables, \<^verbatim>\<open>str(v)\<close> of a
  value as an f-string renders it, \<^verbatim>\<open>str(e)\<close> of an exception, and \<^verbatim>\<open>json.loads\<close>.
\<close>

record runtime =
  unicode :: ucd
  str_of :: "json \<Rightarrow> pystr"
  exn_str :: "exn \<Rightarrow> pystr"
  json_loads :: "pystr \<Rightarrow> exn + json"

text \<open>A value inside an f-string: a string is rendered as itself.\<close>

definition fmt :: "runtime \<Rightarrow> json \<Rightarrow> pystr" where
  "fmt R v = (case v of JStr s \<Rightarrow> s | _ \<Rightarrow> str_of R v)"

text \<open>The truth value of a value, as \<^verbatim>\<open>if v\<close> and \<^verbatim>\<open>a and b\<close> take it.\<close>

fun truthy :: "json \<Rightarrow> bool" where
  "truthy JNull = False"
| "truthy (JBool b) = b"
| "truthy (JInt i) = (i \<noteq> 0)"
| "truthy (JFloat w) = (push_bit 1 w \<noteq> 0)"
| "truthy (JStr s) = (s \<noteq> [])"
| "truthy (JArr xs) = (xs \<noteq> [])"
| "truthy (JObj kvs) = (kvs \<noteq> [])"

text \<open>\<^verbatim>\<open>x.get(k, d)\<close>: only a dict has the method.\<close>

fun py_get :: "json \<Rightarrow> pystr \<Rightarrow> json \<Rightarrow> exn + json" where
  "py_get (JObj kvs) k d = Inr (case map_of kvs k of Some v \<Rightarrow> v | None \<Rightarrow> d)"
| "py_get _ k d = Inl AttributeError"

text \<open>\<^verbatim>\<open>x[k]\<close> for a string \<open>k\<close>.\<close>

fun py_getitem :: "json \<Rightarrow> pystr \<Rightarrow> exn + json" where
  "py_getitem (JObj kvs) k = (case map_of kvs k of Some v \<Rightarrow> Inr v | None \<Rightarrow> Inl (KeyError k))"
| "py_getitem _ k = Inl TypeError"

text \<open>
  \<^verbatim>\<open>k in x\<close> for a string \<open>k\<close>: a key of a dict, an element of a list, a substring
  of a string; the other values are not containers.
\<close>

fun py_in :: "pystr \<Rightarrow> json \<Rightarrow> exn + bool" where
  "py_in k (JObj kvs) = Inr (k \<in> set (map fst kvs))"
| "py_in k (JArr xs) = Inr (JStr k \<in> set xs)"
| "py_in k (JStr s) = Inr (py_substring k s)"
| "py_in k _ = Inl TypeError"

text \<open>
  The items \<^verbatim>\<open>for item in x\<close> runs over: the elements of a list, the keys of a dict,
  the characters of a string.
\<close>

fun py_iter :: "json \<Rightarrow> exn + json list" where
  "py_iter (JArr xs) = Inr xs"
| "py_iter (JObj kvs) = Inr (map (\<lambda>kv. JStr (fst kv)) kvs)"
| "py_iter (JStr s) = Inr (map (\<lambda>c. JStr [c]) s)"
| "py_iter _ = Inl TypeError"

subsection \<open>The two regular expressions\<close>

text \<open>
  \<^verbatim>\<open>int(s)\<close> for a run of decimal digits, the only strings the program converts.
  (The signs, blanks and underscores \<^verbatim>\<open>int\<close> also accepts cannot occur in a match of
  \<^verbatim>\<open>\d+\<close>.) The interpreter refuses to convert a string of more than
  \<^verbatim>\<open>sys.int_info.default_max_str_digits\<close> digits, leading zeros counted, and raises
  \<^verbatim>\<open>ValueError\<close>.
\<close>

definition int_max_str_digits :: nat where
  "int_max_str_digits = 4300"

fun digits_value :: "ucd \<Rightarrow> int \<Rightarrow> pystr \<Rightarrow> exn + int" where
  "digits_value U acc [] = Inr acc"
| "digits_value U acc (c # cs) =
     (case digit_value U c of
        None \<Rightarrow> Inl ValueError
      | Some d \<Rightarrow> digits_value U (10 * acc + int d) cs)"

definition py_int :: "ucd \<Rightarrow> pystr \<Rightarrow> exn + int" where
  "py_int U s =
     (if s = [] then Inl ValueError
      else if length s > int_max_str_digits then Inl ValueError
      else digits_value U 0 s)"

text \<open>
  \<^verbatim>\<open>re.search(r'(\d+)', text)\<close>: the leftmost position where a digit stands, and
  from there the longest run of digits. The result is group 1 of the match.
\<close>

fun re_search_digits :: "ucd \<Rightarrow> pystr \<Rightarrow> pystr option" where
  "re_search_digits U [] = None"
| "re_search_digits U (c # cs) =
     (if is_decimal U c then Some (takeWhile (is_decimal U) (c # cs))
      else re_search_digits U cs)"

text \<open>
  \<^verbatim>\<open>\b\<close> holds between two neighbouring positions when exactly one of them is a
  word character; beyond either end of the text there is no word character.
\<close>

definition opt_word :: "ucd \<Rightarrow> pychar option \<Rightarrow> bool" where
  "opt_word U c = (case c of None \<Rightarrow> False | Some x \<Rightarrow> is_word U x)"

definition word_boundary :: "ucd \<Rightarrow> pychar option \<Rightarrow> pychar option \<Rightarrow> bool" where
  "word_boundary U a b \<longleftrightarrow> opt_word U a \<noteq> opt_word U b"

definition nth_opt :: "'a list \<Rightarrow> nat \<Rightarrow> 'a option" where
  "nth_opt xs n = (if n < length xs then Some (xs ! n) else None)"

text \<open>
  One attempt to match \<^verbatim>\<open>\b(\d+)\b\<close> at a position, \<open>prev\<close> being the character
  before it and \<open>s\<close> the text from it on. \<^verbatim>\<open>\d+\<close> is greedy: it first takes the whole
  run of digits and gives characters back one at a time until the closing \<^verbatim>\<open>\b\<close>
  holds. The result is the length of the match.
\<close>

definition match_digits_at :: "ucd \<Rightarrow> pychar option \<Rightarrow> pystr \<Rightarrow> nat option" where
  "match_digits_at U prev s =
     (if word_boundary U prev (nth_opt s 0)
      then List.find (\<lambda>n. word_boundary U (nth_opt s (n - 1)) (nth_opt s n))
             (rev [1 ..< Suc (length (takeWhile (is_decimal U) s))])
      else None)"

text \<open>
  \<^verbatim>\<open>re.findall(r'\b(\d+)\b', text)\<close>: the matches from left to right, none overlapping
  another; after a match the scan goes on behind it, and where there is none it moves
  on by one character.
\<close>

function findall_digits :: "ucd \<Rightarrow> pychar option \<Rightarrow> pystr \<Rightarrow> pystr list" where
  "findall_digits U prev [] = []"
| "findall_digits U prev (c # cs) =
     (case match_digits_at U prev (c # cs) of
        Some n \<Rightarrow> take n (c # cs) # findall_digits U (nth_opt (c # cs) (n - 1)) (drop n (c # cs))
      | None \<Rightarrow> findall_digits U (Some c) cs)"
  by pat_completeness auto
termination
proof (relation "measure (\<lambda>(U, prev, s). length s)")
  fix U :: ucd and prev :: "pychar option" and c :: pychar and cs :: pystr and n :: nat
  assume m: "match_digits_at U prev (c # cs) = Some n"
  then obtain xs where "List.find (\<lambda>n. word_boundary U (nth_opt (c # cs) (n - 1))
      (nth_opt (c # cs) n)) (rev [1 ..< Suc xs]) = Some n"
    by (auto simp: match_digits_at_def split: if_splits)
  then have "n \<in> set (rev [1 ..< Suc xs])"
    unfolding find_Some_iff by (metis nth_mem)
  then have "0 < n" by auto
  then show "((U, nth_opt (c # cs) (n - 1), drop n (c # cs)), (U, prev, c # cs))
      \<in> measure (\<lambda>(U, prev, s). length s)"
    by simp
qed simp_all

section \<open>The Recommendation Formatter\<close>

text \<open>\<^verbatim>\<open>_get_product_text(product)\<close>. The loop over the sections carries the text built so far.\<close>

fun section_lines :: "runtime \<Rightarrow> pystr \<Rightarrow> json list \<Rightarrow> exn + pystr" where
  "section_lines R text [] = Inr text"
| "section_lines R text (section # rest) =
     bind (py_get section (py ''heading'') (JStr [])) (\<lambda>heading.
     bind (py_get section (py ''text'') (JStr [])) (\<lambda>content.
       section_lines R
         (if truthy heading \<and> truthy content
          then text @ fmt R heading @ py '': '' @ fmt R content @ [10]
          else text)
         rest))"

definition get_product_text :: "runtime \<Rightarrow> json \<Rightarrow> exn + pystr" where
  "get_product_text R product =
     bind (py_getitem product (py ''Name'')) (\<lambda>name.
     bind (py_getitem product (py ''Description'')) (\<lambda>description.
     bind (py_get product (py ''Sections'') (JArr [])) (\<lambda>sections.
     bind (py_iter sections) (\<lambda>items.
       section_lines R
         (py ''Name: '' @ fmt R name @ [10] @ py ''Description: '' @ fmt R description @ [10])
         items))))"

text \<open>
  \<^verbatim>\<open>_extract_duration(product)\<close>. The loop returns at the first section with the
  heading whose text holds a digit; a section with the heading and no digit is passed
  over.
\<close>

fun duration_loop :: "ucd \<Rightarrow> json list \<Rightarrow> exn + int" where
  "duration_loop U [] = Inr 60"
| "duration_loop U (section # rest) =
     bind (py_get section (py ''heading'') JNull) (\<lambda>heading.
       if heading = JStr (py ''Assessment length'')
       then bind (py_get section (py ''text'') (JStr [])) (\<lambda>text.
              case text of
                JStr t \<Rightarrow>
                  (case re_search_digits U t of
                     Some m \<Rightarrow> py_int U m
                   | None \<Rightarrow> duration_loop U rest)
              | _ \<Rightarrow> Inl TypeError)
       else duration_loop U rest)"

definition extract_duration :: "ucd \<Rightarrow> json \<Rightarrow> exn + int" where
  "extract_duration U product =
     bind (py_get product (py ''Sections'') (JArr [])) (\<lambda>sections.
     bind (py_iter sections) (\<lambda>items. duration_loop U items))"

text \<open>\<^verbatim>\<open>_extract_test_types(product)\<close>\<close>

definition extract_test_types :: "json \<Rightarrow> exn + json" where
  "extract_test_types product =
     bind (py_in (py ''Test Types'') product) (\<lambda>present.
       if present
       then bind (py_getitem product (py ''Test Types'')) (\<lambda>v.
              if truthy v then py_getitem product (py ''Test Types'')
              else Inr (JArr [JStr (py ''Knowledge & Skills'')]))
       else Inr (JArr [JStr (py ''Knowledge & Skills'')]))"

text \<open>\<^verbatim>\<open>_format_for_llm(products, limit=30)\<close>; \<open>i\<close> counts the products from 0.\<close>

fun format_products :: "runtime \<Rightarrow> nat \<Rightarrow> json list \<Rightarrow> exn + pystr list" where
  "format_products R i [] = Inr []"
| "format_products R i (product # rest) =
     bind (get_product_text R product) (\<lambda>text.
     bind (py_getitem product (py ''Link'')) (\<lambda>link.
     bind (format_products R (Suc i) rest) (\<lambda>formatted.
       Inr ((py ''PRODUCT '' @ str_of R (JInt (int i + 1)) @ py '':'' @ [10] @ text @ [10]
              @ py ''Link: '' @ fmt R link @ [10]) # formatted))))"

definition format_for_llm :: "runtime \<Rightarrow> json list \<Rightarrow> int \<Rightarrow> exn + pystr" where
  "format_for_llm R products limit =
     bind (format_products R 0 (py_slice products 0 limit)) (\<lambda>formatted.
       Inr (py_join [10] formatted))"

text \<open>
  \<^verbatim>\<open>_extract_product_api_format(product)\<close>. The entries of a dict display are
  evaluated in the order they are written.
\<close>

definition extract_product_api_format :: "ucd \<Rightarrow> json \<Rightarrow> exn + json" where
  "extract_product_api_format U product =
     bind (py_get product (py ''Link'') (JStr [])) (\<lambda>url.
     bind (py_get product (py ''Adaptive'') JNull) (\<lambda>adaptive.
     bind (py_get product (py ''Description'') (JStr [])) (\<lambda>description.
     bind (extract_duration U product) (\<lambda>duration.
     bind (py_get product (py ''Remote Testing'') JNull) (\<lambda>remote.
     bind (extract_test_types product) (\<lambda>test_type.
       Inr (JObj [(py ''url'', url),
                  (py ''adaptive_support'',
                    if adaptive = JStr (py ''Yes'') then JStr (py ''Yes'') else JStr (py ''No'')),
                  (py ''description'', description),
                  (py ''duration'', JInt duration),
                  (py ''remote_support'',
                    if remote = JStr (py ''Yes'') then JStr (py ''Yes'') else JStr (py ''No'')),
                  (py ''test_type'', test_type)])))))))"

section \<open>The Recommendation Service\<close>

text \<open>
  The prompt is one of two fixed templates with three holes: the query, \<open>k\<close> and the
  text of the sampled products. The LLM is an opaque capability, so the prompt is kept
  as its variant and what fills the holes.
\<close>

datatype prompt = Prompt_UI pystr int pystr | Prompt_API pystr int pystr

text \<open>
  What a call finds outside the program: the outcome of \<^verbatim>\<open>_get_products()\<close> (the
  cached dataset, a JSON array, or the exception of the first load), the draw of
  \<^verbatim>\<open>random.sample\<close>, and the outcome of \<^verbatim>\<open>llm.invoke(prompt)\<close>, which is the text
  \<^verbatim>\<open>str(response.content)\<close> or an exception. Output of \<^verbatim>\<open>_debug_print\<close> is left out.
\<close>

record world =
  get_products :: "exn + json list"
  random_sample :: "json list \<Rightarrow> nat \<Rightarrow> json list"
  llm_invoke :: "prompt \<Rightarrow> exn + pystr"

text \<open>\<^verbatim>\<open>xs[i]\<close> for a list and an integer; a negative index counts from the end.\<close>

definition py_index :: "'a list \<Rightarrow> int \<Rightarrow> exn + 'a" where
  "py_index xs i =
     (if 0 \<le> i \<and> i < int (length xs) then Inr (xs ! nat i)
      else if i < 0 \<and> - int (length xs) \<le> i then Inr (xs ! nat (int (length xs) + i))
      else Inl IndexError)"

subsection \<open>The UI shape\<close>

text \<open>
  \<^verbatim>\<open>recommend_assessment\<close> returns the text \<^verbatim>\<open>json.dumps(v)\<close> of a list \<open>v\<close> it has
  built from decoded values and string literals, which \<^verbatim>\<open>json.dumps\<close> always encodes;
  the model returns \<open>v\<close>. The two fallback lists:
\<close>

definition no_suitable_fallback :: json where
  "no_suitable_fallback =
     JArr [JObj [(py ''name'', JStr (py ''No suitable assessments found'')),
                 (py ''url'', JStr (py ''https://www.shl.com/contact-us/''))]]"

definition error_fallback :: json where
  "error_fallback =
     JArr [JObj [(py ''name'', JStr (py ''Error retrieving recommendations'')),
                 (py ''url'', JStr (py ''https://www.shl.com/contact-us/''))]]"

text \<open>The loop that keeps the items with both fields.\<close>

fun clean_results :: "json list \<Rightarrow> exn + json list" where
  "clean_results [] = Inr []"
| "clean_results (item # rest) =
     bind (py_in (py ''name'') item) (\<lambda>has_name.
     bind (if has_name then py_in (py ''url'') item else Inr False) (\<lambda>has_both.
       if has_both
       then bind (py_getitem item (py ''name'')) (\<lambda>name.
            bind (py_getitem item (py ''url'')) (\<lambda>url.
            bind (clean_results rest) (\<lambda>cleaned.
              Inr (JObj [(py ''name'', name), (py ''url'', url)] # cleaned))))
       else clean_results rest))"

text \<open>The body of the \<^verbatim>\<open>try\<close> statement; 91 and 93 are the two square brackets.\<close>

definition ui_try :: "runtime \<Rightarrow> world \<Rightarrow> prompt \<Rightarrow> exn + json" where
  "ui_try R W prompt =
     bind (llm_invoke W prompt) (\<lambda>content.
       let response_text = py_strip content;
           start_idx = py_find response_text 91;
           end_idx = py_rfind response_text 93 + 1
       in if start_idx \<ge> 0 \<and> end_idx > start_idx
          then bind (json_loads R (py_slice response_text start_idx end_idx)) (\<lambda>results.
               bind (py_iter results) (\<lambda>items.
               bind (clean_results items) (\<lambda>cleaned. Inr (JArr cleaned))))
          else Inr no_suitable_fallback)"

definition recommend_assessment :: "runtime \<Rightarrow> world \<Rightarrow> pystr \<Rightarrow> int \<Rightarrow> exn + json" where
  "recommend_assessment R W user_query k =
     bind (get_products W) (\<lambda>products.
       let sample_size = min 50 (length products);
           sampled_products = random_sample W products sample_size
       in bind (format_for_llm R sampled_products 30) (\<lambda>products_text.
            Inr (case ui_try R W (Prompt_UI user_query k products_text) of
                   Inr v \<Rightarrow> v
                 | Inl e \<Rightarrow> error_fallback)))"

subsection \<open>The API shape\<close>

text \<open>The loop over the matches; \<open>n\<close> is the number of sampled products.\<close>

fun collect_indices :: "ucd \<Rightarrow> nat \<Rightarrow> pystr list \<Rightarrow> int list" where
  "collect_indices U n [] = []"
| "collect_indices U n (m # ms) =
     (case py_int U m of
        Inl e \<Rightarrow> collect_indices U n ms
      | Inr v \<Rightarrow>
          (let idx = v - 1
           in if 0 \<le> idx \<and> idx < int n then idx # collect_indices U n ms
              else collect_indices U n ms))"

text \<open>The indices the reply resolves to, after the cut to \<open>k\<close> and the fallback.\<close>

definition select_indices :: "ucd \<Rightarrow> pystr \<Rightarrow> nat \<Rightarrow> int \<Rightarrow> int list" where
  "select_indices U response_text n k =
     (let matches = findall_digits U None response_text;
          indices = py_slice (collect_indices U n matches) 0 k
      in if indices = [] then map int [0 ..< nat (min k (int n))] else indices)"

text \<open>
  The loop that builds the records; its body repeats that of
  \<^verbatim>\<open>_extract_product_api_format\<close> word for word.
\<close>

fun build_assessments :: "ucd \<Rightarrow> json list \<Rightarrow> int list \<Rightarrow> exn + json list" where
  "build_assessments U sampled [] = Inr []"
| "build_assessments U sampled (idx # rest) =
     bind (py_index sampled idx) (\<lambda>product.
     bind (extract_product_api_format U product) (\<lambda>assessment.
     bind (build_assessments U sampled rest) (\<lambda>others. Inr (assessment # others))))"

definition api_try :: "runtime \<Rightarrow> world \<Rightarrow> json list \<Rightarrow> prompt \<Rightarrow> int \<Rightarrow> exn + json" where
  "api_try R W sampled_products prompt k =
     bind (llm_invoke W prompt) (\<lambda>content.
       let response_text = py_strip content;
           indices = select_indices (unicode R) response_text (length sampled_products) k
       in bind (build_assessments (unicode R) sampled_products indices) (\<lambda>recommended.
            Inr (JObj [(py ''recommended_assessments'', JArr recommended)])))"

definition api_error_fallback :: "runtime \<Rightarrow> exn \<Rightarrow> json" where
  "api_error_fallback R e =
     JObj [(py ''recommended_assessments'',
            JArr [JObj [(py ''url'', JStr (py ''https://www.shl.com/contact-us/'')),
                        (py ''adaptive_support'', JStr (py ''No'')),
                        (py ''description'',
                           JStr (py ''Error retrieving recommendations: '' @ exn_str R e)),
                        (py ''duration'', JInt 60),
                        (py ''remote_support'', JStr (py ''Yes'')),
                        (py ''test_type'', JArr [JStr (py ''Error'')])]])]"

definition recommend_assessment_api_format ::
    "runtime \<Rightarrow> world \<Rightarrow> pystr \<Rightarrow> int \<Rightarrow> exn + json" where
  "recommend_assessment_api_format R W user_query k =
     bind (get_products W) (\<lambda>products.
       let sampled_products = random_sample W products (min 50 (length products))
       in bind (format_for_llm R sampled_products 30) (\<lambda>products_text.
            Inr (case api_try R W sampled_products (Prompt_API user_query k products_text) k of
                   Inr v \<Rightarrow> v
                 | Inl e \<Rightarrow> api_error_fallback R e)))"

section \<open>The Catalog Harvester\<close>

text \<open>
  A page is known to the program through the answers of the HTML parser to its
  queries, so an element is the record of those answers. A table row: the cell of class
  \<^verbatim>\<open>custom__table-heading__title\<close> if there is one, in it the first anchor if there is
  one, with its \<^verbatim>\<open>href\<close> attribute if it has one; and the cells of class
  \<^verbatim>\<open>custom__table-heading__general\<close>, each with whether it holds a span of class
  \<^verbatim>\<open>-yes\<close> and the texts of its spans of class \<^verbatim>\<open>product-catalogue__key\<close>.
\<close>

record anchor =
  href :: "pystr option"
  anchor_text :: pystr

record title_cell =
  link_tag :: "anchor option"

record general_cell =
  yes_span :: bool
  key_spans :: "pystr list"

record row =
  course_id :: bool
  entity_id :: bool
  title_td :: "title_cell option"
  general_tds :: "general_cell list"

text \<open>
  A parsed page: its \<^verbatim>\<open>h4\<close> elements, each with the text of the next sibling
  \<^verbatim>\<open>p\<close> if there is one; the \<^verbatim>\<open>meta\<close> element named description if there is one, with
  its \<^verbatim>\<open>content\<close> attribute if it has one; and its table rows.
\<close>

record h4_tag =
  h4_text :: pystr
  next_p :: "pystr option"

record soup =
  h4_tags :: "h4_tag list"
  meta_description :: "pystr option option"
  trs :: "row list"

text \<open>
  A response has a status and a text; the program reads only the text. \<open>requests_get\<close>
  is \<^verbatim>\<open>requests.get(url, headers=HEADERS, params=params, timeout=10)\<close>, which raises on
  a timeout or a failed connection and returns a response otherwise, whatever its
  status; \<open>beautiful_soup\<close> is the parser.
\<close>

record response =
  status_code :: nat
  res_text :: pystr

record web =
  requests_get :: "pystr \<Rightarrow> (pystr \<times> json) list \<Rightarrow> exn + response"
  beautiful_soup :: "pystr \<Rightarrow> exn + soup"

definition BASE_URL :: pystr where
  "BASE_URL = py ''https://www.shl.com''"

definition CATALOG_URL :: pystr where
  "CATALOG_URL = BASE_URL @ py ''/products/product-catalog/''"

definition get_full_url :: "pystr \<Rightarrow> pystr" where
  "get_full_url relative_link =
     (if startswith relative_link (py ''/'') then BASE_URL @ relative_link else relative_link)"

text \<open>The sections loop of \<^verbatim>\<open>extract_details_from_link\<close>.\<close>

fun detail_sections :: "h4_tag list \<Rightarrow> json list" where
  "detail_sections [] = []"
| "detail_sections (h4 # rest) =
     (case next_p h4 of
        Some p \<Rightarrow> JObj [(py ''heading'', JStr (py_strip (h4_text h4))),
                       (py ''text'', JStr (py_strip p))] # detail_sections rest
      | None \<Rightarrow> detail_sections rest)"

definition details_try :: "web \<Rightarrow> pystr \<Rightarrow> exn + json" where
  "details_try Wb link =
     bind (requests_get Wb link []) (\<lambda>res.
     bind (beautiful_soup Wb (res_text res)) (\<lambda>soup.
       let sections = detail_sections (h4_tags soup)
       in bind (case meta_description soup of
                  None \<Rightarrow> Inr []
                | Some None \<Rightarrow> Inl (KeyError (py ''content''))
                | Some (Some c) \<Rightarrow> Inr c) (\<lambda>description.
            Inr (JObj [(py ''description'', JStr description),
                       (py ''sections'', JArr sections)]))))"

definition extract_details_from_link :: "runtime \<Rightarrow> web \<Rightarrow> pystr \<Rightarrow> json" where
  "extract_details_from_link R Wb link =
     (case details_try Wb link of
        Inr d \<Rightarrow> d
      | Inl e \<Rightarrow> JObj [(py ''description'', JStr []),
                       (py ''sections'', JArr []),
                       (py ''error'', JStr (exn_str R e))])"

text \<open>
  \<^verbatim>\<open>parse_product_row\<close>; 9989 and 10007 are the check mark and the ballot cross the
  source writes for the two flags. The filter values are integers or \<^verbatim>\<open>None\<close>.
\<close>

definition parse_product_row ::
    "runtime \<Rightarrow> web \<Rightarrow> row \<Rightarrow> pystr \<Rightarrow> json \<Rightarrow> json \<Rightarrow> json \<Rightarrow> json \<Rightarrow> exn + json option" where
  "parse_product_row R Wb r product_type job_family job_level industry job_category =
     (case title_td r of
        None \<Rightarrow> Inr None
      | Some td \<Rightarrow>
     (case link_tag td of
        None \<Rightarrow> Inr None
      | Some a \<Rightarrow>
     (case href a of
        None \<Rightarrow> Inl (KeyError (py ''href''))
      | Some h \<Rightarrow>
          (let link = get_full_url (py_strip h);
               name = py_strip (anchor_text a);
               columns = general_tds r
           in bind (py_index columns 0) (\<lambda>c0.
              bind (py_index columns 1) (\<lambda>c1.
              bind (py_index columns 2) (\<lambda>c2.
                let remote_testing = (if yes_span c0 then [9989] else [10007]);
                    adaptive = (if yes_span c1 then [9989] else [10007]);
                    test_types = map (\<lambda>t. JStr (py_strip t)) (key_spans c2);
                    detail_data = extract_details_from_link R Wb link
                in bind (py_get detail_data (py ''description'') (JStr [])) (\<lambda>description.
                   bind (py_get detail_data (py ''sections'') (JArr [])) (\<lambda>sections.
                     Inr (Some (JObj [
                       (py ''Product Type'', JStr product_type),
                       (py ''Name'', JStr name),
                       (py ''Link'', JStr link),
                       (py ''Remote Testing'', JStr remote_testing),
                       (py ''Adaptive'', JStr adaptive),
                       (py ''Test Types'', JArr test_types),
                       (py ''Description'', description),
                       (py ''Sections'', sections),
                       (py ''Job Family'', job_family),
                       (py ''Job Level'', job_level),
                       (py ''Industry'', industry),
                       (py ''Job Category'', job_category)])))))))))))"

text \<open>
  The loop over the rows of a listing page, shared word for word by
  \<^verbatim>\<open>scrape_combination\<close> and \<^verbatim>\<open>scrape_job_category\<close>: a row that yields \<^verbatim>\<open>None\<close> adds
  nothing, and an exception in a row leaves the loop.
\<close>

fun rows_loop ::
    "runtime \<Rightarrow> web \<Rightarrow> json \<Rightarrow> json \<Rightarrow> json \<Rightarrow> json \<Rightarrow> row list \<Rightarrow> exn + json list" where
  "rows_loop R Wb jf jl ind jc [] = Inr []"
| "rows_loop R Wb jf jl ind jc (r # rest) =
     bind (parse_product_row R Wb r
             (if course_id r then py ''Pre-packaged'' else py ''Individual'') jf jl ind jc)
       (\<lambda>parsed.
     bind (rows_loop R Wb jf jl ind jc rest) (\<lambda>others.
       Inr (case parsed of
              None \<Rightarrow> others
            | Some p \<Rightarrow> if truthy p then p # others else others)))"

definition listing_rows :: "soup \<Rightarrow> row list" where
  "listing_rows sp = filter course_id (trs sp) @ filter entity_id (trs sp)"

definition scrape_combination :: "runtime \<Rightarrow> web \<Rightarrow> int \<times> int \<times> int \<Rightarrow> json list" where
  "scrape_combination R Wb combo =
     (case combo of (job_family, job_level, industry) \<Rightarrow>
        let params = [(py ''job_family'', JInt job_family),
                      (py ''job_level'', JInt job_level),
                      (py ''industry'', JInt industry),
                      (py ''action_doFilteringForm'', JStr (py ''Search'')),
                      (py ''f'', JStr (py ''1''))]
        in case bind (requests_get Wb CATALOG_URL params) (\<lambda>res.
                bind (beautiful_soup Wb (res_text res)) (\<lambda>sp.
                  rows_loop R Wb (JInt job_family) (JInt job_level) (JInt industry) JNull
                    (listing_rows sp))) of
             Inr local_results \<Rightarrow> local_results
           | Inl e \<Rightarrow> [])"

section \<open>Example environments\<close>

text \<open>
  Concrete tables, pages and datasets at which the theorems below are instantiated. The
  Unicode table has no entry above the code points written out, and no text that an
  example hands to a regular expression holds a character above them, so that no
  example depends on the table; \<^verbatim>\<open>str\<close> of a value is only needed for the prompt,
  which no model reads.
\<close>

definition example_ucd :: ucd where
  "example_ucd = \<lparr>decimal_hi = (\<lambda>c. None), alnum_hi = (\<lambda>c. False)\<rparr>"

definition example_runtime :: runtime where
  "example_runtime =
     \<lparr>unicode = example_ucd,
      str_of = (\<lambda>v. py ''?''),
      exn_str = (\<lambda>e. case e of LibraryError m \<Rightarrow> m | _ \<Rightarrow> py ''error''),
      json_loads = (\<lambda>s. Inl JSONDecodeError)\<rparr>"

definition example_page :: soup where
  "example_page =
     \<lparr>h4_tags = [\<lparr>h4_text = py ''Description'', next_p = Some (py ''A Java test.'')\<rparr>,
                 \<lparr>h4_text = py ''Assessment length'',
                   next_p = Some (py ''Approximate Completion Time in minutes = 30'')\<rparr>],
      meta_description = Some (Some (py ''Java 8 skills'')),
      trs = []\<rparr>"

definition example_web :: web where
  "example_web =
     \<lparr>requests_get = (\<lambda>url params. Inr \<lparr>status_code = 200, res_text = py ''<html>''\<rparr>),
      beautiful_soup = (\<lambda>text. Inr example_page)\<rparr>"

text \<open>A row of the listing whose remote-testing and adaptive cells both hold the yes span.\<close>

definition example_row :: row where
  "example_row =
     \<lparr>course_id = False, entity_id = True,
      title_td = Some \<lparr>link_tag = Some \<lparr>href = Some (py ''/products/java-8/''),
                                          anchor_text = py '' Java 8 ''\<rparr>\<rparr>,
      general_tds = [\<lparr>yes_span = True, key_spans = []\<rparr>,
                     \<lparr>yes_span = True, key_spans = []\<rparr>,
                     \<lparr>yes_span = False, key_spans = [py ''K'']\<rparr>]\<rparr>"

text \<open>The record the harvester emits for that row.\<close>

definition example_product :: json where
  "example_product =
     JObj [(py ''Product Type'', JStr (py ''Individual'')),
           (py ''Name'', JStr (py ''Java 8'')),
           (py ''Link'', JStr (py ''https://www.shl.com/products/java-8/'')),
           (py ''Remote Testing'', JStr [9989]),
           (py ''Adaptive'', JStr [9989]),
           (py ''Test Types'', JArr [JStr (py ''K'')]),
           (py ''Description'', JStr (py ''Java 8 skills'')),
           (py ''Sections'', JArr [
              JObj [(py ''heading'', JStr (py ''Description'')),
                    (py ''text'', JStr (py ''A Java test.''))],
              JObj [(py ''heading'', JStr (py ''Assessment length'')),
                    (py ''text'', JStr (py ''Approximate Completion Time in minutes = 30''))]]),
           (py ''Job Family'', JInt 1),
           (py ''Job Level'', JInt 2),
           (py ''Industry'', JInt 3),
           (py ''Job Category'', JNull)]"




text \<open>
  A row whose anchor has a relative address without a leading slash and a blank text.
\<close>

definition relative_row :: row where
  "relative_row =
     \<lparr>course_id = True, entity_id = False,
      title_td = Some \<lparr>link_tag = Some \<lparr>href = Some (py ''java-8/''),
                                          anchor_text = py '' ''\<rparr>\<rparr>,
      general_tds = [\<lparr>yes_span = False, key_spans = []\<rparr>,
                     \<lparr>yes_span = False, key_spans = []\<rparr>,
                     \<lparr>yes_span = False, key_spans = []\<rparr>]\<rparr>"

text \<open>
  A row without a title cell.
\<close>

definition untitled_row :: row where
  "untitled_row = \<lparr>course_id = True, entity_id = False, title_td = None, general_tds = []\<rparr>"

text \<open>
  A site whose requests time out, and a site that answers every request with status 404
  and an error page.
\<close>

definition failing_web :: web where
  "failing_web =
     \<lparr>requests_get = (\<lambda>url params. Inl (LibraryError (py ''Read timed out.''))),
      beautiful_soup = (\<lambda>text. Inr example_page)\<rparr>"

definition not_found_web :: web where
  "not_found_web =
     \<lparr>requests_get = (\<lambda>url params. Inr \<lparr>status_code = 404, res_text = py ''<html>''\<rparr>),
      beautiful_soup = (\<lambda>text. Inr
        \<lparr>h4_tags = [\<lparr>h4_text = py ''Sorry'', next_p = Some (py ''This page does not exist.'')\<rparr>],
         meta_description = Some (Some (py ''Page not found'')),
         trs = []\<rparr>)\<rparr>"

text \<open>
  The bracketed span of a reply, in the words of the specification: the substring from
  the first opening bracket through the last closing bracket, if a closing bracket
  stands behind the first opening one.
\<close>

definition bracket_span :: "pystr \<Rightarrow> pystr option" where
  "bracket_span s =
     (let r = dropWhile (\<lambda>c. c \<noteq> 91) s
      in if 93 \<in> set r then Some (rev (dropWhile (\<lambda>c. c \<noteq> 93) (rev r))) else None)"

text \<open>
  A product with a name, a link and a description only, and a dataset of five products.
\<close>

definition plain_product :: "string \<Rightarrow> string \<Rightarrow> json" where
  "plain_product name link =
     JObj [(py ''Name'', JStr (py name)), (py ''Link'', JStr (py link)),
           (py ''Description'', JStr (py ''A test.''))]"

definition example_dataset :: "json list" where
  "example_dataset =
     [example_product,
      plain_product ''Python'' ''https://www.shl.com/products/python/'',
      plain_product ''SQL'' ''https://www.shl.com/products/sql/'',
      plain_product ''Excel'' ''https://www.shl.com/products/excel/'',
      plain_product ''Sales'' ''https://www.shl.com/products/sales/'']"

text \<open>
  A world with that dataset, whose sample is the first products of the dataset, and
  whose LLM call has the given outcome whatever the prompt.
\<close>

definition example_world :: "exn + pystr \<Rightarrow> world" where
  "example_world outcome =
     \<lparr>get_products = Inr example_dataset,
      random_sample = (\<lambda>xs n. take n xs),
      llm_invoke = (\<lambda>p. outcome)\<rparr>"

text \<open>
  Replies, and what \<^verbatim>\<open>json.loads\<close> returns for their bracketed spans: an array of
  three objects, of which the first has a field too many and the second lacks its link;
  the empty array; and an array that repeats the stand-in for no suitable assessment.
\<close>

definition span_three :: pystr where
  "span_three = py ''[{\"name\": \"Java 8\", \"url\": \"https://www.shl.com/products/java-8/\", \"score\": 9}, {\"name\": \"Python\"}, {\"name\": \"SQL\", \"url\": \"https://www.shl.com/products/sql/\"}]''"

definition reply_three :: pystr where
  "reply_three = py ''Here are the assessments: '' @ span_three @ py '' I hope this helps.''"

definition items_three :: "json list" where
  "items_three =
     [JObj [(py ''name'', JStr (py ''Java 8'')),
            (py ''url'', JStr (py ''https://www.shl.com/products/java-8/'')),
            (py ''score'', JInt 9)],
      JObj [(py ''name'', JStr (py ''Python''))],
      JObj [(py ''name'', JStr (py ''SQL'')),
            (py ''url'', JStr (py ''https://www.shl.com/products/sql/''))]]"

definition reply_echo :: pystr where
  "reply_echo = py ''[{\"name\": \"No suitable assessments found\", \"url\": \"https://www.shl.com/contact-us/\"}]''"

definition example_loads :: "pystr \<Rightarrow> exn + json" where
  "example_loads s =
     (if s = py ''[]'' then Inr (JArr [])
      else if s = span_three then Inr (JArr items_three)
      else if s = reply_echo then
        Inr (JArr [JObj [(py ''name'', JStr (py ''No suitable assessments found'')),
                         (py ''url'', JStr (py ''https://www.shl.com/contact-us/''))]])
      else Inl JSONDecodeError)"

text \<open>
  The runtime whose decoder is that table.
\<close>

definition example_ui_runtime :: runtime where
  "example_ui_runtime = example_runtime\<lparr>json_loads := example_loads\<rparr>"

text \<open>
  The items that expose both fields, and an item cut down to its two fields, in the
  words of the specification.
\<close>

definition is_object :: "json \<Rightarrow> bool" where
  "is_object item = (case item of JObj kvs \<Rightarrow> True | _ \<Rightarrow> False)"

definition exposes_both :: "json \<Rightarrow> bool" where
  "exposes_both item =
     (case item of
        JObj kvs \<Rightarrow> py ''name'' \<in> set (map fst kvs) \<and> py ''url'' \<in> set (map fst kvs)
      | _ \<Rightarrow> False)"

definition field :: "json \<Rightarrow> pystr \<Rightarrow> json" where
  "field item k =
     (case item of
        JObj kvs \<Rightarrow> (case map_of kvs k of Some v \<Rightarrow> v | None \<Rightarrow> JNull)
      | _ \<Rightarrow> JNull)"

definition name_url :: "json \<Rightarrow> json" where
  "name_url item =
     JObj [(py ''name'', field item (py ''name'')), (py ''url'', field item (py ''url''))]"

text \<open>
  The runs of digits of a text, in the words of the specification: every maximal run
  of digits, from left to right, each with the character before it and the character
  behind it, if there are such.
\<close>

function digit_runs ::
    "ucd \<Rightarrow> pychar option \<Rightarrow> pystr \<Rightarrow> (pychar option \<times> pystr \<times> pychar option) list" where
  "digit_runs U prev [] = []"
| "digit_runs U prev (c # cs) =
     (if is_decimal U c
      then (prev, c # takeWhile (is_decimal U) cs,
              (case dropWhile (is_decimal U) cs of [] \<Rightarrow> None | x # xs \<Rightarrow> Some x))
           # digit_runs U (Some (last (c # takeWhile (is_decimal U) cs)))
               (dropWhile (is_decimal U) cs)
      else digit_runs U (Some c) cs)"
  by pat_completeness auto
termination
  by (relation "measure (\<lambda>(U, prev, s). length s)")
     (auto simp: length_dropWhile_le less_Suc_eq_le)

text \<open>
  The runs that stand between word boundaries: neither neighbour is a word character.
\<close>

definition bounded_runs :: "ucd \<Rightarrow> pystr \<Rightarrow> pystr list" where
  "bounded_runs U s =
     map (\<lambda>(p, r, n). r)
       (filter (\<lambda>(p, r, n). \<not> opt_word U p \<and> \<not> opt_word U n) (digit_runs U None s))"

text \<open>
  The number a run of digits denotes.
\<close>

definition run_number :: "ucd \<Rightarrow> pystr \<Rightarrow> int" where
  "run_number U r =
     foldl (\<lambda>a c. 10 * a + (case digit_value U c of Some d \<Rightarrow> int d | None \<Rightarrow> 0)) 0 r"

text \<open>
  The indices a reply resolves to for a sample of \<open>n\<close> products: the numbers of the
  bounded runs of at most 4300 digits, less one, those within the sample, cut to \<open>k\<close>
  as a slice cuts (a negative \<open>k\<close> cuts from the end); and the first products of the
  sample when none is left.
\<close>

definition spec_indices :: "ucd \<Rightarrow> pystr \<Rightarrow> nat \<Rightarrow> int \<Rightarrow> int list" where
  "spec_indices U reply n k =
     (let found = filter (\<lambda>i. 0 \<le> i \<and> i < int n)
                    (map (\<lambda>r. run_number U r - 1)
                       (filter (\<lambda>r. length r \<le> int_max_str_digits) (bounded_runs U reply)));
          cut = (if 0 \<le> k then take (nat k) found
                 else take (length found - nat (- k)) found)
      in if cut = [] then map int [0 ..< nat (min k (int n))] else cut)"

text \<open>
  The expanded records of a list of products, in the order of the list; the first
  product whose record cannot be built gives its exception.
\<close>

fun expanded_records :: "ucd \<Rightarrow> json list \<Rightarrow> exn + json list" where
  "expanded_records U [] = Inr []"
| "expanded_records U (p # ps) =
     bind (extract_product_api_format U p) (\<lambda>a.
     bind (expanded_records U ps) (\<lambda>others. Inr (a # others)))"

text \<open>
  The expanded record the service builds for an example product: neither flag reads
  Yes.
\<close>

definition example_record :: "string \<Rightarrow> string \<Rightarrow> int \<Rightarrow> string \<Rightarrow> json" where
  "example_record link description duration test_type =
     JObj [(py ''url'', JStr (py link)),
           (py ''adaptive_support'', JStr (py ''No'')),
           (py ''description'', JStr (py description)),
           (py ''duration'', JInt duration),
           (py ''remote_support'', JStr (py ''No'')),
           (py ''test_type'', JArr [JStr (py test_type)])]"

section \<open>Basic facts\<close>

lemma py_eq_iff [simp]: "py a = py b \<longleftrightarrow> a = b"
  unfolding py_def by (simp add: inj_on_def)

lemma bind_simps [simp]: "bind (Inr x) f = f x" "bind (Inl e) f = Inl e"
  by (simp_all add: bind_def)

lemma bind_Inr_iff: "bind m f = Inr v \<longleftrightarrow> (\<exists>x. m = Inr x \<and> f x = Inr v)"
  by (cases m) simp_all

lemma digits_value_run:
  "\<forall>c \<in> set s. is_decimal U c \<Longrightarrow> \<exists>v. digits_value U acc s = Inr v"
  by (induction s arbitrary: acc) (auto simp: is_decimal_def)

lemma re_search_digits_Some:
  "re_search_digits U t = Some m \<Longrightarrow> m \<noteq> [] \<and> (\<forall>c \<in> set m. is_decimal U c)"
  by (induction t) (auto split: if_splits dest: set_takeWhileD)

lemma py_int_search:
  "re_search_digits U t = Some m \<Longrightarrow> (\<exists>v. py_int U m = Inr v) \<or> py_int U m = Inl ValueError"
  using re_search_digits_Some [of U t m] digits_value_run [of m U 0]
  by (auto simp: py_int_def)

section \<open>What the harvester emits\<close>

lemma duration_loop_detail_sections:
  "(\<exists>v. duration_loop U (detail_sections hs) = Inr v) \<or>
   duration_loop U (detail_sections hs) = Inl ValueError"
proof (induction hs)
  case Nil
  show ?case by simp
next
  case (Cons h hs)
  show ?case
  proof (cases "next_p h")
    case None
    with Cons show ?thesis by simp
  next
    case (Some p)
    show ?thesis
    proof (cases "re_search_digits U (py_strip p)")
      case None
      with Some Cons show ?thesis by simp
    next
      case (Some m)
      with \<open>next_p h = Some p\<close> py_int_search [OF Some] Cons show ?thesis by auto
    qed
  qed
qed

lemma details_try_Inr:
  assumes "details_try Wb link = Inr d"
  obtains desc hs where
    "d = JObj [(py ''description'', JStr desc), (py ''sections'', JArr (detail_sections hs))]"
proof -
  from assms obtain res where res: "requests_get Wb link [] = Inr res"
    unfolding details_try_def by (cases "requests_get Wb link []") simp_all
  from assms res obtain sp where sp: "beautiful_soup Wb (res_text res) = Inr sp"
    unfolding details_try_def by (cases "beautiful_soup Wb (res_text res)") simp_all
  from assms res sp obtain desc where
    "d = JObj [(py ''description'', JStr desc),
               (py ''sections'', JArr (detail_sections (h4_tags sp)))]"
    unfolding details_try_def
    by (cases "meta_description sp"; cases "the (meta_description sp)") (auto simp: Let_def)
  then show thesis by (rule that)
qed

lemma details_shape:
  obtains d hs rest where
    "extract_details_from_link R Wb link =
       JObj ((py ''description'', JStr d) # (py ''sections'', JArr (detail_sections hs)) # rest)"
proof (cases "details_try Wb link")
  case (Inl e)
  show thesis
    by (rule that [of "[]" "[]" "[(py ''error'', JStr (exn_str R e))]"])
       (simp add: extract_details_from_link_def Inl)
next
  case (Inr d)
  from details_try_Inr [OF Inr] obtain desc hs where
    "d = JObj [(py ''description'', JStr desc), (py ''sections'', JArr (detail_sections hs))]" .
  with Inr show thesis
    by (intro that [of desc hs "[]"]) (simp add: extract_details_from_link_def)
qed

lemma parse_product_row_anchor:
  assumes "parse_product_row R Wb r pt jf jl ind jc = Inr (Some p)"
  shows "\<exists>td a h. title_td r = Some td \<and> link_tag td = Some a \<and> href a = Some h"
proof (cases "title_td r")
  case None
  with assms show ?thesis by (simp add: parse_product_row_def)
next
  case (Some td)
  note td = this
  show ?thesis
  proof (cases "link_tag td")
    case None
    with assms td show ?thesis by (simp add: parse_product_row_def)
  next
    case (Some a)
    note a = this
    show ?thesis
    proof (cases "href a")
      case None
      with assms td a show ?thesis by (simp add: parse_product_row_def)
    next
      case (Some h)
      with td a show ?thesis by simp
    qed
  qed
qed

lemma parse_product_row_Some:
  assumes "parse_product_row R Wb r pt jf jl ind jc = Inr (Some p)"
  obtains td a h c0 c1 c2 d hs where
    "title_td r = Some td" "link_tag td = Some a" "href a = Some h"
    "py_index (general_tds r) 0 = Inr c0" "py_index (general_tds r) 1 = Inr c1"
    "py_index (general_tds r) 2 = Inr c2"
    "p = JObj [
           (py ''Product Type'', JStr pt),
           (py ''Name'', JStr (py_strip (anchor_text a))),
           (py ''Link'', JStr (get_full_url (py_strip h))),
           (py ''Remote Testing'', JStr (if yes_span c0 then [9989] else [10007])),
           (py ''Adaptive'', JStr (if yes_span c1 then [9989] else [10007])),
           (py ''Test Types'', JArr (map (\<lambda>t. JStr (py_strip t)) (key_spans c2))),
           (py ''Description'', JStr d),
           (py ''Sections'', JArr (detail_sections hs)),
           (py ''Job Family'', jf),
           (py ''Job Level'', jl),
           (py ''Industry'', ind),
           (py ''Job Category'', jc)]"
proof -
  from parse_product_row_anchor [OF assms] obtain td a h where
    t: "title_td r = Some td" "link_tag td = Some a" "href a = Some h" by blast
  obtain d hs rest where ds: "extract_details_from_link R Wb (get_full_url (py_strip h)) =
     JObj ((py ''description'', JStr d) # (py ''sections'', JArr (detail_sections hs)) # rest)"
    by (rule details_shape)
  from assms t obtain c0 where c0: "py_index (general_tds r) 0 = Inr c0"
    unfolding parse_product_row_def Let_def by (cases "py_index (general_tds r) 0") simp_all
  from assms t c0 obtain c1 where c1: "py_index (general_tds r) 1 = Inr c1"
    unfolding parse_product_row_def Let_def by (cases "py_index (general_tds r) 1") simp_all
  from assms t c0 c1 obtain c2 where c2: "py_index (general_tds r) 2 = Inr c2"
    unfolding parse_product_row_def Let_def by (cases "py_index (general_tds r) 2") simp_all
  from assms t ds c0 c1 c2 have "p = JObj [
                 (py ''Product Type'', JStr pt),
                 (py ''Name'', JStr (py_strip (anchor_text a))),
                 (py ''Link'', JStr (get_full_url (py_strip h))),
                 (py ''Remote Testing'', JStr (if yes_span c0 then [9989] else [10007])),
                 (py ''Adaptive'', JStr (if yes_span c1 then [9989] else [10007])),
                 (py ''Test Types'', JArr (map (\<lambda>t. JStr (py_strip t)) (key_spans c2))),
                 (py ''Description'', JStr d),
                 (py ''Sections'', JArr (detail_sections hs)),
                 (py ''Job Family'', jf),
                 (py ''Job Level'', jl),
                 (py ''Industry'', ind),
                 (py ''Job Category'', jc)]"
    unfolding parse_product_row_def by (simp add: Let_def)
  with t c0 c1 c2 show thesis by (rule that)
qed

lemma example_row_parsed:
  "parse_product_row example_runtime example_web example_row (py ''Individual'')
      (JInt 1) (JInt 2) (JInt 3) JNull = Inr (Some example_product)"
  by (simp add: parse_product_row_def example_row_def example_web_def example_runtime_def
    example_page_def example_product_def extract_details_from_link_def details_try_def
    py_index_def Let_def get_full_url_def BASE_URL_def py_strip_def py_def is_space_def)

lemma example_duration: "extract_duration example_ucd example_product = Inr 30"
  by (simp add: extract_duration_def example_product_def py_int_def int_max_str_digits_def
      py_def is_decimal_def digit_value_def example_ucd_def)

section \<open>The claims\<close>

text \<open>
  C1. The claim: for every product record the harvester emits, the API record has
  \<^verbatim>\<open>adaptive_support\<close> equal to Yes exactly when the adaptive flag of the product is set,
  and \<^verbatim>\<open>remote_support\<close> equal to Yes exactly when its remote-testing flag is set.
  The harvester writes the flags as a check mark or a ballot cross, and the formatter
  compares them with the text Yes. So what holds of the code is this: for every record
  \<^verbatim>\<open>parse_product_row\<close> emits, whatever the two flags, the API record is built and both
  of its fields are No. The one record that is not built is that of a product whose
  duration cannot be converted (a run of more than 4300 digits in the text of its
  \<^verbatim>\<open>Assessment length\<close> section): there \<^verbatim>\<open>_extract_duration\<close> raises
  \<^verbatim>\<open>ValueError\<close>, and so does the formatter.
\<close>

theorem C1_flags_never_yes:
  assumes "parse_product_row R Wb r pt jf jl ind jc = Inr (Some p)"
  shows "(\<exists>a. extract_product_api_format U p = Inr (JObj a) \<and>
              map_of a (py ''adaptive_support'') = Some (JStr (py ''No'')) \<and>
              map_of a (py ''remote_support'') = Some (JStr (py ''No''))) \<or>
         (extract_duration U p = Inl ValueError \<and>
          extract_product_api_format U p = Inl ValueError)"
proof -
  from assms obtain td a h c0 c1 c2 d hs where
    "title_td r = Some td" "link_tag td = Some a" "href a = Some h"
    "py_index (general_tds r) 0 = Inr c0" "py_index (general_tds r) 1 = Inr c1"
    "py_index (general_tds r) 2 = Inr c2" and
    p: "p = JObj [
           (py ''Product Type'', JStr pt),
           (py ''Name'', JStr (py_strip (anchor_text a))),
           (py ''Link'', JStr (get_full_url (py_strip h))),
           (py ''Remote Testing'', JStr (if yes_span c0 then [9989] else [10007])),
           (py ''Adaptive'', JStr (if yes_span c1 then [9989] else [10007])),
           (py ''Test Types'', JArr (map (\<lambda>t. JStr (py_strip t)) (key_spans c2))),
           (py ''Description'', JStr d),
           (py ''Sections'', JArr (detail_sections hs)),
           (py ''Job Family'', jf),
           (py ''Job Level'', jl),
           (py ''Industry'', ind),
           (py ''Job Category'', jc)]"
    by (rule parse_product_row_Some)
  obtain tt where tt: "extract_test_types p = Inr tt"
    by (cases "key_spans c2 = []") (simp_all add: extract_test_types_def p)
  have yes: "py ''Yes'' \<noteq> [9989]" "py ''Yes'' \<noteq> [10007]"
    by (simp_all add: py_def)
  from duration_loop_detail_sections [of U hs] show ?thesis
  proof
    assume "\<exists>v. duration_loop U (detail_sections hs) = Inr v"
    then obtain v where v: "duration_loop U (detail_sections hs) = Inr v" ..
    have dur: "extract_duration U p = Inr v"
      by (simp add: extract_duration_def p v)
    have "extract_product_api_format U p =
        Inr (JObj [(py ''url'', JStr (get_full_url (py_strip h))),
                   (py ''adaptive_support'', JStr (py ''No'')),
                   (py ''description'', JStr d),
                   (py ''duration'', JInt v),
                   (py ''remote_support'', JStr (py ''No'')),
                   (py ''test_type'', tt)])"
      unfolding extract_product_api_format_def dur tt
      using yes by (simp add: p)
    then show ?thesis by simp
  next
    assume e: "duration_loop U (detail_sections hs) = Inl ValueError"
    have dur: "extract_duration U p = Inl ValueError"
      by (simp add: extract_duration_def p e)
    have "extract_product_api_format U p = Inl ValueError"
      unfolding extract_product_api_format_def dur by (simp add: p)
    with dur show ?thesis by simp
  qed
qed

theorem C1_flags_never_yes_witness:
  "parse_product_row example_runtime example_web example_row (py ''Individual'')
      (JInt 1) (JInt 2) (JInt 3) JNull = Inr (Some example_product) \<and>
   map_of (case example_product of JObj kvs \<Rightarrow> kvs | _ \<Rightarrow> []) (py ''Adaptive'')
     = Some (JStr [9989]) \<and>
   (\<exists>a. extract_product_api_format example_ucd example_product = Inr (JObj a) \<and>
        map_of a (py ''adaptive_support'') = Some (JStr (py ''No'')) \<and>
        map_of a (py ''remote_support'') = Some (JStr (py ''No'')))"
proof (intro conjI)
  show "parse_product_row example_runtime example_web example_row (py ''Individual'')
      (JInt 1) (JInt 2) (JInt 3) JNull = Inr (Some example_product)"
    by (rule example_row_parsed)
  show "map_of (case example_product of JObj kvs \<Rightarrow> kvs | _ \<Rightarrow> []) (py ''Adaptive'')
     = Some (JStr [9989])"
    by (simp add: example_product_def)
  show "\<exists>a. extract_product_api_format example_ucd example_product = Inr (JObj a) \<and>
        map_of a (py ''adaptive_support'') = Some (JStr (py ''No'')) \<and>
        map_of a (py ''remote_support'') = Some (JStr (py ''No''))"
    using C1_flags_never_yes [OF example_row_parsed, of example_ucd]
    by (simp add: example_duration)
qed

section \<open>Duration\<close>



lemma digits_value_foldl:
  "\<forall>c \<in> set s. is_decimal U c \<Longrightarrow>
   digits_value U acc s =
     Inr (foldl (\<lambda>a c. 10 * a + (case digit_value U c of Some d \<Rightarrow> int d | None \<Rightarrow> 0)) acc s)"
  by (induction s arbitrary: acc) (auto simp: is_decimal_def)







section \<open>Rows\<close>

lemma bind_Inr_id: "bind m (\<lambda>x. Inr x) = m"
  by (cases m) simp_all

lemma parse_product_row_no_title:
  "title_td r = None \<Longrightarrow> parse_product_row R Wb r pt jf jl ind jc = Inr None"
  by (simp add: parse_product_row_def)

lemma parse_product_row_no_anchor:
  "title_td r = Some td \<Longrightarrow> link_tag td = None \<Longrightarrow>
   parse_product_row R Wb r pt jf jl ind jc = Inr None"
  by (simp add: parse_product_row_def)

lemma rows_loop_None:
  assumes "parse_product_row R Wb r
             (if course_id r then py ''Pre-packaged'' else py ''Individual'') jf jl ind jc = Inr None"
  shows "rows_loop R Wb jf jl ind jc (r # rest) = rows_loop R Wb jf jl ind jc rest"
  using assms by (simp add: bind_Inr_id)

lemma parse_product_row_name_link:
  assumes "parse_product_row R Wb r pt jf jl ind jc = Inr (Some p)"
  shows "\<exists>td a h kvs. title_td r = Some td \<and> link_tag td = Some a \<and> href a = Some h \<and>
           p = JObj kvs \<and>
           map_of kvs (py ''Name'') = Some (JStr (py_strip (anchor_text a))) \<and>
           map_of kvs (py ''Link'') =
             Some (JStr (if startswith (py_strip h) (py ''/'')
                         then py ''https://www.shl.com'' @ py_strip h else py_strip h))"
proof -
  from assms obtain td a h c0 c1 c2 d hs where
    t: "title_td r = Some td" "link_tag td = Some a" "href a = Some h" and
    "py_index (general_tds r) 0 = Inr c0" "py_index (general_tds r) 1 = Inr c1"
    "py_index (general_tds r) 2 = Inr c2" and
    p: "p = JObj [
           (py ''Product Type'', JStr pt),
           (py ''Name'', JStr (py_strip (anchor_text a))),
           (py ''Link'', JStr (get_full_url (py_strip h))),
           (py ''Remote Testing'', JStr (if yes_span c0 then [9989] else [10007])),
           (py ''Adaptive'', JStr (if yes_span c1 then [9989] else [10007])),
           (py ''Test Types'', JArr (map (\<lambda>t. JStr (py_strip t)) (key_spans c2))),
           (py ''Description'', JStr d),
           (py ''Sections'', JArr (detail_sections hs)),
           (py ''Job Family'', jf),
           (py ''Job Level'', jl),
           (py ''Industry'', ind),
           (py ''Job Category'', jc)]"
    by (rule parse_product_row_Some)
  have "map_of [
           (py ''Product Type'', JStr pt),
           (py ''Name'', JStr (py_strip (anchor_text a))),
           (py ''Link'', JStr (get_full_url (py_strip h))),
           (py ''Remote Testing'', JStr (if yes_span c0 then [9989] else [10007])),
           (py ''Adaptive'', JStr (if yes_span c1 then [9989] else [10007])),
           (py ''Test Types'', JArr (map (\<lambda>t. JStr (py_strip t)) (key_spans c2))),
           (py ''Description'', JStr d),
           (py ''Sections'', JArr (detail_sections hs)),
           (py ''Job Family'', jf),
           (py ''Job Level'', jl),
           (py ''Industry'', ind),
           (py ''Job Category'', jc)] (py ''Name'') = Some (JStr (py_strip (anchor_text a)))"
    by simp
  moreover have "map_of [
           (py ''Product Type'', JStr pt),
           (py ''Name'', JStr (py_strip (anchor_text a))),
           (py ''Link'', JStr (get_full_url (py_strip h))),
           (py ''Remote Testing'', JStr (if yes_span c0 then [9989] else [10007])),
           (py ''Adaptive'', JStr (if yes_span c1 then [9989] else [10007])),
           (py ''Test Types'', JArr (map (\<lambda>t. JStr (py_strip t)) (key_spans c2))),
           (py ''Description'', JStr d),
           (py ''Sections'', JArr (detail_sections hs)),
           (py ''Job Family'', jf),
           (py ''Job Level'', jl),
           (py ''Industry'', ind),
           (py ''Job Category'', jc)] (py ''Link'') =
             Some (JStr (if startswith (py_strip h) (py ''/'')
                         then py ''https://www.shl.com'' @ py_strip h else py_strip h))"
    by (simp add: get_full_url_def BASE_URL_def)
  ultimately show ?thesis using t p by (intro exI conjI) assumption+
qed

lemma relative_row_parsed:
  "parse_product_row example_runtime example_web relative_row (py ''Pre-packaged'')
      (JInt 1) (JInt 2) (JInt 3) JNull =
   Inr (Some (JObj [
      (py ''Product Type'', JStr (py ''Pre-packaged'')),
      (py ''Name'', JStr []),
      (py ''Link'', JStr (py ''java-8/'')),
      (py ''Remote Testing'', JStr [10007]),
      (py ''Adaptive'', JStr [10007]),
      (py ''Test Types'', JArr []),
      (py ''Description'', JStr (py ''Java 8 skills'')),
      (py ''Sections'', JArr [
         JObj [(py ''heading'', JStr (py ''Description'')),
               (py ''text'', JStr (py ''A Java test.''))],
         JObj [(py ''heading'', JStr (py ''Assessment length'')),
               (py ''text'', JStr (py ''Approximate Completion Time in minutes = 30''))]]),
      (py ''Job Family'', JInt 1),
      (py ''Job Level'', JInt 2),
      (py ''Industry'', JInt 3),
      (py ''Job Category'', JNull)]))"
  by (simp add: parse_product_row_def relative_row_def example_web_def example_runtime_def
    example_page_def extract_details_from_link_def details_try_def
    py_index_def Let_def get_full_url_def BASE_URL_def py_strip_def py_def is_space_def)

text \<open>
  C8, as stated, fails: the row \<open>relative_row\<close> has a title cell and an anchor, and the
  record emitted for it has the empty string as its name and the relative address
  \<^verbatim>\<open>java-8/\<close> as its link.
\<close>

theorem C8_blank_name_relative_link:
  "parse_product_row example_runtime example_web relative_row (py ''Pre-packaged'')
      (JInt 1) (JInt 2) (JInt 3) JNull =
   Inr (Some (JObj [
      (py ''Product Type'', JStr (py ''Pre-packaged'')),
      (py ''Name'', JStr []),
      (py ''Link'', JStr (py ''java-8/'')),
      (py ''Remote Testing'', JStr [10007]),
      (py ''Adaptive'', JStr [10007]),
      (py ''Test Types'', JArr []),
      (py ''Description'', JStr (py ''Java 8 skills'')),
      (py ''Sections'', JArr [
         JObj [(py ''heading'', JStr (py ''Description'')),
               (py ''text'', JStr (py ''A Java test.''))],
         JObj [(py ''heading'', JStr (py ''Assessment length'')),
               (py ''text'', JStr (py ''Approximate Completion Time in minutes = 30''))]]),
      (py ''Job Family'', JInt 1),
      (py ''Job Level'', JInt 2),
      (py ''Industry'', JInt 3),
      (py ''Job Category'', JNull)]))"
  by (rule relative_row_parsed)

text \<open>
  C8, amended. A row without a title cell, or whose title cell has no anchor, yields
  \<^verbatim>\<open>None\<close> without an exception, and the loop over the rows passes over it. Every
  emitted record comes from a row with a title cell and an anchor with an address; its
  name is the stripped text of the anchor, and its link is the stripped address, with
  \<^verbatim>\<open>https://www.shl.com\<close> put before it when it begins with a slash and unchanged
  otherwise.
\<close>

theorem C8_rows_emitted:
  "(title_td r = None \<longrightarrow> parse_product_row R Wb r pt jf jl ind jc = Inr None) \<and>
   (\<forall>td. title_td r = Some td \<and> link_tag td = None \<longrightarrow>
      parse_product_row R Wb r pt jf jl ind jc = Inr None) \<and>
   (parse_product_row R Wb r
      (if course_id r then py ''Pre-packaged'' else py ''Individual'') jf jl ind jc = Inr None \<longrightarrow>
    rows_loop R Wb jf jl ind jc (r # rest) = rows_loop R Wb jf jl ind jc rest) \<and>
   (\<forall>p. parse_product_row R Wb r pt jf jl ind jc = Inr (Some p) \<longrightarrow>
      (\<exists>td a h kvs. title_td r = Some td \<and> link_tag td = Some a \<and> href a = Some h \<and>
         p = JObj kvs \<and>
         map_of kvs (py ''Name'') = Some (JStr (py_strip (anchor_text a))) \<and>
         map_of kvs (py ''Link'') =
           Some (JStr (if startswith (py_strip h) (py ''/'')
                       then py ''https://www.shl.com'' @ py_strip h else py_strip h))))"
proof (intro conjI allI impI)
  assume "title_td r = None"
  then show "parse_product_row R Wb r pt jf jl ind jc = Inr None"
    by (rule parse_product_row_no_title)
next
  fix td assume "title_td r = Some td \<and> link_tag td = None"
  then show "parse_product_row R Wb r pt jf jl ind jc = Inr None"
    by (simp add: parse_product_row_no_anchor)
next
  assume "parse_product_row R Wb r
      (if course_id r then py ''Pre-packaged'' else py ''Individual'') jf jl ind jc = Inr None"
  then show "rows_loop R Wb jf jl ind jc (r # rest) = rows_loop R Wb jf jl ind jc rest"
    by (rule rows_loop_None)
next
  fix p assume "parse_product_row R Wb r pt jf jl ind jc = Inr (Some p)"
  then show "\<exists>td a h kvs. title_td r = Some td \<and> link_tag td = Some a \<and> href a = Some h \<and>
         p = JObj kvs \<and>
         map_of kvs (py ''Name'') = Some (JStr (py_strip (anchor_text a))) \<and>
         map_of kvs (py ''Link'') =
           Some (JStr (if startswith (py_strip h) (py ''/'')
                       then py ''https://www.shl.com'' @ py_strip h else py_strip h))"
    by (rule parse_product_row_name_link)
qed

lemma example_rows_loop:
  "rows_loop example_runtime example_web (JInt 1) (JInt 2) (JInt 3) JNull [example_row] =
     Inr [example_product]"
proof -
  have c: "course_id example_row = False"
    by (simp add: example_row_def)
  have t: "truthy example_product" by (simp add: example_product_def)
  show ?thesis
    by (simp add: c example_row_parsed t)
qed

theorem C8_rows_emitted_witness:
  "parse_product_row example_runtime example_web untitled_row (py ''Pre-packaged'')
     (JInt 1) (JInt 2) (JInt 3) JNull = Inr None \<and>
   parse_product_row example_runtime example_web
     \<lparr>course_id = True, entity_id = False, title_td = Some \<lparr>link_tag = None\<rparr>, general_tds = []\<rparr>
     (py ''Pre-packaged'') (JInt 1) (JInt 2) (JInt 3) JNull = Inr None \<and>
   rows_loop example_runtime example_web (JInt 1) (JInt 2) (JInt 3) JNull
     [untitled_row, example_row] = Inr [example_product] \<and>
   (\<exists>kvs. example_product = JObj kvs \<and>
      map_of kvs (py ''Name'') = Some (JStr (py ''Java 8'')) \<and>
      map_of kvs (py ''Link'') = Some (JStr (py ''https://www.shl.com/products/java-8/'')))"
proof (intro conjI)
  note U = C8_rows_emitted [of untitled_row example_runtime example_web "py ''Pre-packaged''"
      "JInt 1" "JInt 2" "JInt 3" JNull "[example_row]"]
  have u: "title_td untitled_row = None" by (simp add: untitled_row_def)
  have n: "parse_product_row example_runtime example_web untitled_row (py ''Pre-packaged'')
     (JInt 1) (JInt 2) (JInt 3) JNull = Inr None"
    using U [THEN conjunct1] u by (rule mp)
  show "parse_product_row example_runtime example_web untitled_row (py ''Pre-packaged'')
     (JInt 1) (JInt 2) (JInt 3) JNull = Inr None"
    by (rule n)
  have t: "(if course_id untitled_row then py ''Pre-packaged'' else py ''Individual'')
      = py ''Pre-packaged''"
    by (simp add: untitled_row_def)
  have "rows_loop example_runtime example_web (JInt 1) (JInt 2) (JInt 3) JNull
     [untitled_row, example_row] =
     rows_loop example_runtime example_web (JInt 1) (JInt 2) (JInt 3) JNull [example_row]"
    using U [THEN conjunct2, THEN conjunct2, THEN conjunct1] n unfolding t by (rule mp)
  then show "rows_loop example_runtime example_web (JInt 1) (JInt 2) (JInt 3) JNull
     [untitled_row, example_row] = Inr [example_product]"
    by (simp only: example_rows_loop)
  let ?r = "\<lparr>course_id = True, entity_id = False, title_td = Some \<lparr>link_tag = None\<rparr>,
             general_tds = []\<rparr>"
  note V = C8_rows_emitted [of ?r example_runtime example_web "py ''Pre-packaged''"
      "JInt 1" "JInt 2" "JInt 3" JNull "[]"]
  have "title_td ?r = Some \<lparr>link_tag = None\<rparr> \<and> link_tag \<lparr>link_tag = None\<rparr> = None" by simp
  with V [THEN conjunct2, THEN conjunct1, THEN spec, of "\<lparr>link_tag = None\<rparr>"]
  show "parse_product_row example_runtime example_web ?r
     (py ''Pre-packaged'') (JInt 1) (JInt 2) (JInt 3) JNull = Inr None"
    by (rule mp)
  note X = C8_rows_emitted [of example_row example_runtime example_web "py ''Individual''"
      "JInt 1" "JInt 2" "JInt 3" JNull "[]"]
  from X [THEN conjunct2, THEN conjunct2, THEN conjunct2, THEN spec, of example_product]
    example_row_parsed
  have "\<exists>td a h kvs. title_td example_row = Some td \<and> link_tag td = Some a \<and> href a = Some h \<and>
         example_product = JObj kvs \<and>
         map_of kvs (py ''Name'') = Some (JStr (py_strip (anchor_text a))) \<and>
         map_of kvs (py ''Link'') =
           Some (JStr (if startswith (py_strip h) (py ''/'')
                       then py ''https://www.shl.com'' @ py_strip h else py_strip h))"
    by (rule mp)
  then show "\<exists>kvs. example_product = JObj kvs \<and>
      map_of kvs (py ''Name'') = Some (JStr (py ''Java 8'')) \<and>
      map_of kvs (py ''Link'') = Some (JStr (py ''https://www.shl.com/products/java-8/''))"
  proof (elim exE conjE)
    fix td a h kvs
    assume td: "title_td example_row = Some td" and a: "link_tag td = Some a"
      and h: "href a = Some h" and k: "example_product = JObj kvs"
      and nm: "map_of kvs (py ''Name'') = Some (JStr (py_strip (anchor_text a)))"
      and lk: "map_of kvs (py ''Link'') =
           Some (JStr (if startswith (py_strip h) (py ''/'')
                       then py ''https://www.shl.com'' @ py_strip h else py_strip h))"
    from td have "td = \<lparr>link_tag = Some \<lparr>href = Some (py ''/products/java-8/''),
                                          anchor_text = py '' Java 8 ''\<rparr>\<rparr>"
      by (simp add: example_row_def)
    with a have a': "a = \<lparr>href = Some (py ''/products/java-8/''), anchor_text = py '' Java 8 ''\<rparr>"
      by simp
    with h have h': "h = py ''/products/java-8/''" by simp
    have "py_strip (anchor_text a) = py ''Java 8''"
      unfolding a' by (simp add: py_strip_def py_def is_space_def)
    moreover have "(if startswith (py_strip h) (py ''/'')
                       then py ''https://www.shl.com'' @ py_strip h else py_strip h)
       = py ''https://www.shl.com/products/java-8/''"
      unfolding h' by (simp add: py_strip_def py_def is_space_def)
    ultimately have F: "example_product = JObj kvs \<and>
      map_of kvs (py ''Name'') = Some (JStr (py ''Java 8'')) \<and>
      map_of kvs (py ''Link'') = Some (JStr (py ''https://www.shl.com/products/java-8/''))"
      using k nm lk by simp
    show ?thesis by (rule exI [of _ kvs]) (rule F)
  qed
qed

section \<open>Detail pages\<close>

lemma details_failure:
  assumes "details_try Wb link = Inl e"
  shows "extract_details_from_link R Wb link =
           JObj [(py ''description'', JStr []), (py ''sections'', JArr []),
                 (py ''error'', JStr (exn_str R e))]"
  using assms by (simp add: extract_details_from_link_def)

lemma details_try_raises:
  assumes "requests_get Wb link [] = Inl e \<or>
           (\<exists>res. requests_get Wb link [] = Inr res \<and> beautiful_soup Wb (res_text res) = Inl e) \<or>
           (\<exists>res sp. requests_get Wb link [] = Inr res \<and> beautiful_soup Wb (res_text res) = Inr sp \<and>
              meta_description sp = Some None \<and> e = KeyError (py ''content''))"
  shows "details_try Wb link = Inl e"
  using assms by (auto simp: details_try_def Let_def)

lemma parse_product_row_detail_failure:
  assumes "title_td r = Some td" "link_tag td = Some a" "href a = Some h"
    and "general_tds r = c0 # c1 # c2 # cs"
    and "details_try Wb (get_full_url (py_strip h)) = Inl e"
  shows "parse_product_row R Wb r pt jf jl ind jc =
     Inr (Some (JObj [
        (py ''Product Type'', JStr pt),
        (py ''Name'', JStr (py_strip (anchor_text a))),
        (py ''Link'', JStr (get_full_url (py_strip h))),
        (py ''Remote Testing'', JStr (if yes_span c0 then [9989] else [10007])),
        (py ''Adaptive'', JStr (if yes_span c1 then [9989] else [10007])),
        (py ''Test Types'', JArr (map (\<lambda>t. JStr (py_strip t)) (key_spans c2))),
        (py ''Description'', JStr []),
        (py ''Sections'', JArr []),
        (py ''Job Family'', jf),
        (py ''Job Level'', jl),
        (py ''Industry'', ind),
        (py ''Job Category'', jc)]))"
proof -
  have i: "py_index (c0 # c1 # c2 # cs) 0 = Inr c0" "py_index (c0 # c1 # c2 # cs) 1 = Inr c1"
    "py_index (c0 # c1 # c2 # cs) 2 = Inr c2"
    by (simp_all add: py_index_def)
  show ?thesis
    unfolding parse_product_row_def
    by (simp add: assms(1-4) i details_failure [OF assms(5)] Let_def)
qed

text \<open>
  C9, as stated, fails twice. When the request for the detail page times out, the
  emitted record has twelve fields, none of them an error note: the note stays in the
  value of \<^verbatim>\<open>extract_details_from_link\<close>. And a response with status 404 is no
  failure: its page is parsed like any other, and the record takes the description and
  the sections of the error page.
\<close>

theorem C9_note_dropped_and_404_parsed:
  "extract_details_from_link example_runtime failing_web (py ''https://www.shl.com/products/java-8/'')
     = JObj [(py ''description'', JStr []), (py ''sections'', JArr []),
             (py ''error'', JStr (py ''Read timed out.''))] \<and>
   parse_product_row example_runtime failing_web example_row (py ''Individual'')
      (JInt 1) (JInt 2) (JInt 3) JNull =
   Inr (Some (JObj [
      (py ''Product Type'', JStr (py ''Individual'')),
      (py ''Name'', JStr (py ''Java 8'')),
      (py ''Link'', JStr (py ''https://www.shl.com/products/java-8/'')),
      (py ''Remote Testing'', JStr [9989]),
      (py ''Adaptive'', JStr [9989]),
      (py ''Test Types'', JArr [JStr (py ''K'')]),
      (py ''Description'', JStr []),
      (py ''Sections'', JArr []),
      (py ''Job Family'', JInt 1),
      (py ''Job Level'', JInt 2),
      (py ''Industry'', JInt 3),
      (py ''Job Category'', JNull)])) \<and>
   parse_product_row example_runtime not_found_web example_row (py ''Individual'')
      (JInt 1) (JInt 2) (JInt 3) JNull =
   Inr (Some (JObj [
      (py ''Product Type'', JStr (py ''Individual'')),
      (py ''Name'', JStr (py ''Java 8'')),
      (py ''Link'', JStr (py ''https://www.shl.com/products/java-8/'')),
      (py ''Remote Testing'', JStr [9989]),
      (py ''Adaptive'', JStr [9989]),
      (py ''Test Types'', JArr [JStr (py ''K'')]),
      (py ''Description'', JStr (py ''Page not found'')),
      (py ''Sections'', JArr [
         JObj [(py ''heading'', JStr (py ''Sorry'')),
               (py ''text'', JStr (py ''This page does not exist.''))]]),
      (py ''Job Family'', JInt 1),
      (py ''Job Level'', JInt 2),
      (py ''Industry'', JInt 3),
      (py ''Job Category'', JNull)]))"
  by (simp add: parse_product_row_def example_row_def failing_web_def not_found_web_def
    example_runtime_def extract_details_from_link_def details_try_def
    py_index_def Let_def get_full_url_def BASE_URL_def py_strip_def py_def is_space_def)

text \<open>
  C9, amended. When the fetch of the detail page raises an exception (the request
  times out or cannot connect, the parser raises, or the description element has no
  content), \<^verbatim>\<open>extract_details_from_link\<close> returns an empty description, an empty list of
  sections and the error note, and the row, if it has its anchor with an address and
  its three cells, is still emitted, with the empty description and the empty list of
  sections.
\<close>

theorem C9_detail_failure:
  assumes "title_td r = Some td" "link_tag td = Some a" "href a = Some h"
    and "general_tds r = c0 # c1 # c2 # cs"
    and "requests_get Wb (get_full_url (py_strip h)) [] = Inl e \<or>
         (\<exists>res. requests_get Wb (get_full_url (py_strip h)) [] = Inr res \<and>
            beautiful_soup Wb (res_text res) = Inl e) \<or>
         (\<exists>res sp. requests_get Wb (get_full_url (py_strip h)) [] = Inr res \<and>
            beautiful_soup Wb (res_text res) = Inr sp \<and>
            meta_description sp = Some None \<and> e = KeyError (py ''content''))"
  shows "extract_details_from_link R Wb (get_full_url (py_strip h)) =
           JObj [(py ''description'', JStr []), (py ''sections'', JArr []),
                 (py ''error'', JStr (exn_str R e))] \<and>
         (\<exists>kvs. parse_product_row R Wb r pt jf jl ind jc = Inr (Some (JObj kvs)) \<and>
            map_of kvs (py ''Description'') = Some (JStr []) \<and>
            map_of kvs (py ''Sections'') = Some (JArr []))"
proof
  have f: "details_try Wb (get_full_url (py_strip h)) = Inl e"
    using assms(5) by (rule details_try_raises)
  show "extract_details_from_link R Wb (get_full_url (py_strip h)) =
           JObj [(py ''description'', JStr []), (py ''sections'', JArr []),
                 (py ''error'', JStr (exn_str R e))]"
    using f by (rule details_failure)
  show "\<exists>kvs. parse_product_row R Wb r pt jf jl ind jc = Inr (Some (JObj kvs)) \<and>
            map_of kvs (py ''Description'') = Some (JStr []) \<and>
            map_of kvs (py ''Sections'') = Some (JArr [])"
    unfolding parse_product_row_detail_failure [OF assms(1-4) f] by simp
qed

theorem C9_detail_failure_witness:
  "extract_details_from_link example_runtime failing_web (py ''https://www.shl.com/products/java-8/'')
     = JObj [(py ''description'', JStr []), (py ''sections'', JArr []),
             (py ''error'', JStr (py ''Read timed out.''))] \<and>
   (\<exists>kvs. parse_product_row example_runtime failing_web example_row (py ''Individual'')
             (JInt 1) (JInt 2) (JInt 3) JNull = Inr (Some (JObj kvs)) \<and>
          map_of kvs (py ''Description'') = Some (JStr []) \<and>
          map_of kvs (py ''Sections'') = Some (JArr []))"
proof -
  have l: "get_full_url (py_strip (py ''/products/java-8/'')) = py ''https://www.shl.com/products/java-8/''"
    by (simp add: get_full_url_def BASE_URL_def py_strip_def py_def is_space_def)
  have h: "requests_get failing_web (get_full_url (py_strip (py ''/products/java-8/''))) [] =
      Inl (LibraryError (py ''Read timed out.''))"
    by (simp add: failing_web_def)
  have s: "exn_str example_runtime (LibraryError (py ''Read timed out.'')) = py ''Read timed out.''"
    by (simp add: example_runtime_def)
  from C9_detail_failure [of example_row
      "\<lparr>link_tag = Some \<lparr>href = Some (py ''/products/java-8/''), anchor_text = py '' Java 8 ''\<rparr>\<rparr>"
      "\<lparr>href = Some (py ''/products/java-8/''), anchor_text = py '' Java 8 ''\<rparr>"
      "py ''/products/java-8/''"
      "\<lparr>yes_span = True, key_spans = []\<rparr>" "\<lparr>yes_span = True, key_spans = []\<rparr>"
      "\<lparr>yes_span = False, key_spans = [py ''K'']\<rparr>" "[]" failing_web
      "LibraryError (py ''Read timed out.'')" example_runtime "py ''Individual''"
      "JInt 1" "JInt 2" "JInt 3" JNull]
  show ?thesis
    unfolding l s using h by (simp add: example_row_def l)
qed

section \<open>The bracketed span\<close>

lemma bracket_span_canonical:
  assumes "s = a @ 91 # m @ 93 # b" "91 \<notin> set a" "93 \<notin> set b"
  shows "bracket_span s = Some (91 # m @ [93])"
proof -
  have r: "dropWhile (\<lambda>c. c \<noteq> 91) s = 91 # m @ 93 # b"
    using assms(1,2) by (auto simp: dropWhile_append3)
  have "dropWhile (\<lambda>c. c \<noteq> 93) (rev b @ 93 # rev m @ [91]) = 93 # rev m @ [91]"
    using assms(3) by (auto simp: dropWhile_append3)
  then show ?thesis
    by (simp add: bracket_span_def r)
qed

lemma bracket_span_Some:
  assumes "bracket_span s = Some sp"
  obtains a m b where "s = a @ 91 # m @ 93 # b" "91 \<notin> set a" "93 \<notin> set b"
    "sp = 91 # m @ [93]"
proof -
  let ?r = "dropWhile (\<lambda>c. c \<noteq> 91) s"
  from assms have in_r: "93 \<in> set ?r"
    by (simp add: bracket_span_def Let_def split: if_splits)
  have "?r \<noteq> []"
  proof
    assume "?r = []"
    with in_r show False by simp
  qed
  then obtain r' where r: "?r = 91 # r'"
    using hd_dropWhile [of "\<lambda>c. c \<noteq> 91" s] by (cases ?r) auto
  have s: "s = takeWhile (\<lambda>c. c \<noteq> 91) s @ 91 # r'"
    using takeWhile_dropWhile_id [of "\<lambda>c. c \<noteq> 91" s] r by simp
  have a: "91 \<notin> set (takeWhile (\<lambda>c. c \<noteq> 91) s)"
    by (auto dest: set_takeWhileD)
  from in_r r have "93 \<in> set r'" by simp
  then obtain m b where mb: "r' = m @ 93 # b" "93 \<notin> set b"
    by (auto dest: split_list_last)
  have s': "s = takeWhile (\<lambda>c. c \<noteq> 91) s @ 91 # m @ 93 # b"
    using s mb(1) by simp
  from bracket_span_canonical [OF s' a mb(2)] assms have "sp = 91 # m @ [93]" by simp
  with s' a mb(2) show thesis by (rule that)
qed

lemma bracket_span_any:
  assumes "s = a @ 91 # m @ 93 # b"
  shows "bracket_span s \<noteq> None"
proof -
  let ?a = "takeWhile (\<lambda>c. c \<noteq> 91) a"
  have "93 \<in> set (dropWhile (\<lambda>c. c \<noteq> 91) s)"
  proof (cases "91 \<in> set a")
    case True
    then have "dropWhile (\<lambda>c. c \<noteq> 91) s = dropWhile (\<lambda>c. c \<noteq> 91) a @ 91 # m @ 93 # b"
      using assms by simp
    then show ?thesis by simp
  next
    case False
    then have "dropWhile (\<lambda>c. c \<noteq> 91) s = 91 # m @ 93 # b"
      using assms by (auto simp: dropWhile_append3)
    then show ?thesis by simp
  qed
  then show ?thesis by (simp add: bracket_span_def)
qed

lemma not_space_brackets: "\<not> is_space 91" "\<not> is_space 93"
  by (simp_all add: is_space_def)

lemma py_strip_span:
  assumes "s = a @ 91 # m @ 93 # b"
  shows "py_strip s = dropWhile is_space a @ 91 # m @ 93 # rev (dropWhile is_space (rev b))"
proof -
  have "dropWhile is_space s = dropWhile is_space a @ 91 # m @ 93 # b"
    using assms not_space_brackets by (simp add: dropWhile_append3)
  moreover have "dropWhile is_space (rev b @ 93 # rev m @ 91 # rev (dropWhile is_space a))
      = dropWhile is_space (rev b) @ 93 # rev m @ 91 # rev (dropWhile is_space a)"
    using not_space_brackets by (simp add: dropWhile_append3)
  ultimately show ?thesis by (simp add: py_strip_def)
qed

lemma py_strip_part: "\<exists>l r. c = l @ py_strip c @ r"
proof -
  let ?c1 = "dropWhile is_space c"
  have 1: "c = takeWhile is_space c @ ?c1" by simp
  have "rev ?c1 = takeWhile is_space (rev ?c1) @ dropWhile is_space (rev ?c1)" by simp
  then have "?c1 = rev (dropWhile is_space (rev ?c1)) @ rev (takeWhile is_space (rev ?c1))"
    by (metis rev_append rev_rev_ident)
  then have "?c1 = py_strip c @ rev (takeWhile is_space (rev ?c1))"
    by (simp add: py_strip_def)
  with 1 have "c = takeWhile is_space c @ py_strip c @ rev (takeWhile is_space (rev ?c1))"
    by simp
  then show ?thesis by blast
qed

lemma bracket_span_strip: "bracket_span (py_strip c) = bracket_span c"
proof (cases "bracket_span c")
  case (Some sp)
  then obtain a m b where c: "c = a @ 91 # m @ 93 # b" "91 \<notin> set a" "93 \<notin> set b"
    "sp = 91 # m @ [93]"
    by (rule bracket_span_Some)
  have a: "91 \<notin> set (dropWhile is_space a)"
    using c(2) by (auto dest: set_dropWhileD)
  have b: "93 \<notin> set (rev (dropWhile is_space (rev b)))"
    using c(3) by (auto dest: set_dropWhileD)
  from bracket_span_canonical [OF py_strip_span [OF c(1)] a b] Some c(4)
  show ?thesis by simp
next
  case None
  show ?thesis
  proof (cases "bracket_span (py_strip c)")
    case None
    with \<open>bracket_span c = None\<close> show ?thesis by simp
  next
    case (Some sp)
    then obtain a m b where t: "py_strip c = a @ 91 # m @ 93 # b"
      by (rule bracket_span_Some)
    obtain l r where "c = l @ py_strip c @ r" using py_strip_part by blast
    with t have "c = (l @ a) @ 91 # m @ 93 # (b @ r)" by simp
    from bracket_span_any [OF this] None show ?thesis by simp
  qed
qed

lemma py_find_canonical:
  assumes "s = a @ c # r" "c \<notin> set a"
  shows "py_find s c = int (length a)"
proof -
  have "takeWhile (\<lambda>x. x \<noteq> c) s = a"
    using assms by (auto simp: takeWhile_tail)
  with assms(1) show ?thesis by (simp add: py_find_def)
qed

lemma py_rfind_canonical:
  assumes "s = a @ c # b" "c \<notin> set b"
  shows "py_rfind s c = int (length a)"
proof -
  have "rev s = rev b @ c # rev a" using assms(1) by simp
  then have "takeWhile (\<lambda>x. x \<noteq> c) (rev s) = rev b"
    using assms(2) by (auto simp: takeWhile_tail)
  with assms(1) show ?thesis by (simp add: py_rfind_def)
qed

lemma span_slice:
  assumes "s = a @ 91 # m @ 93 # b" "91 \<notin> set a" "93 \<notin> set b"
  shows "py_find s 91 \<ge> 0 \<and> py_rfind s 93 + 1 > py_find s 91 \<and>
         py_slice s (py_find s 91) (py_rfind s 93 + 1) = 91 # m @ [93]"
proof -
  have f: "py_find s 91 = int (length a)"
    using assms(1,2) by (rule py_find_canonical)
  have "s = (a @ 91 # m) @ 93 # b" using assms(1) by simp
  from py_rfind_canonical [OF this assms(3)]
  have r: "py_rfind s 93 = int (length a + 1 + length m)" by simp
  have "py_slice s (int (length a)) (int (length a + 1 + length m) + 1) = 91 # m @ [93]"
  proof -
    have n: "nat (int (length a + 1 + length m) + 1) = length a + (length m + 2)" by simp
    show ?thesis
      unfolding assms(1) py_slice_def slice_bound_def n by simp
  qed
  with f r show ?thesis by simp
qed

lemma no_span_condition:
  assumes "bracket_span s = None"
  shows "\<not> (py_find s 91 \<ge> 0 \<and> py_rfind s 93 + 1 > py_find s 91)"
proof (cases "91 \<in> set s")
  case False
  then show ?thesis by (simp add: py_find_def)
next
  case True
  then obtain a r where s: "s = a @ 91 # r" "91 \<notin> set a"
    by (auto dest: split_list_first)
  have f: "py_find s 91 = int (length a)"
    using s by (rule py_find_canonical)
  have "dropWhile (\<lambda>c. c \<noteq> 91) s = 91 # r"
    using s by (auto simp: dropWhile_append3)
  with assms have nr: "93 \<notin> set r"
    by (simp add: bracket_span_def split: if_splits)
  show ?thesis
  proof (cases "93 \<in> set a")
    case False
    with nr s(1) have "93 \<notin> set s" by simp
    then have "py_rfind s 93 = - 1" by (simp add: py_rfind_def)
    with f show ?thesis by simp
  next
    case True
    then obtain a1 a2 where a: "a = a1 @ 93 # a2" "93 \<notin> set a2"
      by (auto dest: split_list_last)
    have "s = a1 @ 93 # (a2 @ 91 # r)" using s(1) a(1) by simp
    moreover have "93 \<notin> set (a2 @ 91 # r)" using a(2) nr by simp
    ultimately have "py_rfind s 93 = int (length a1)" by (rule py_rfind_canonical)
    with f a(1) show ?thesis by simp
  qed
qed

section \<open>The UI shape\<close>

lemma example_format:
  "\<exists>text. format_for_llm example_ui_runtime example_dataset 30 = Inr text"
  by (simp add: example_ui_runtime_def format_for_llm_def py_slice_def slice_bound_def example_dataset_def
      example_product_def plain_product_def get_product_text_def fmt_def)

lemma spans:
  "bracket_span reply_three = Some span_three"
  "bracket_span reply_echo = Some reply_echo"
  "bracket_span (py ''[]'') = Some (py ''[]'')"
  "bracket_span (py ''Sorry, I cannot help with that.'') = None"
  by (simp_all add: bracket_span_def reply_three_def span_three_def reply_echo_def py_def)

lemma example_sample:
  "random_sample (example_world outcome) example_dataset (min 50 (length example_dataset))
     = example_dataset"
  by (simp add: example_world_def example_dataset_def)

lemma example_world_simps:
  "get_products (example_world outcome) = Inr example_dataset"
  "llm_invoke (example_world outcome) p = outcome"
  by (simp_all add: example_world_def)

lemma ui_try_raise:
  "llm_invoke W p = Inl e \<Longrightarrow> ui_try R W p = Inl e"
  by (simp add: ui_try_def)

lemma ui_try_no_span:
  assumes "llm_invoke W p = Inr content" "bracket_span content = None"
  shows "ui_try R W p = Inr no_suitable_fallback"
proof -
  have "bracket_span (py_strip content) = None"
    using assms(2) by (simp add: bracket_span_strip)
  from no_span_condition [OF this]
  have c: "\<not> (py_find (py_strip content) 91 \<ge> 0 \<and>
             py_rfind (py_strip content) 93 + 1 > py_find (py_strip content) 91)" .
  show ?thesis
    by (simp only: ui_try_def assms(1) bind_simps Let_def if_not_P [OF c])
qed

lemma ui_try_span:
  assumes "llm_invoke W p = Inr content" "bracket_span content = Some sp"
  shows "ui_try R W p =
           bind (json_loads R sp) (\<lambda>results.
           bind (py_iter results) (\<lambda>items.
           bind (clean_results items) (\<lambda>cleaned. Inr (JArr cleaned))))"
proof -
  have "bracket_span (py_strip content) = Some sp"
    using assms(2) by (simp add: bracket_span_strip)
  then obtain a m b where "py_strip content = a @ 91 # m @ 93 # b" "91 \<notin> set a"
    "93 \<notin> set b" "sp = 91 # m @ [93]"
    by (rule bracket_span_Some)
  from span_slice [OF this(1-3)] this(4)
  have c: "py_find (py_strip content) 91 \<ge> 0 \<and>
           py_rfind (py_strip content) 93 + 1 > py_find (py_strip content) 91"
    and sl: "py_slice (py_strip content) (py_find (py_strip content) 91)
           (py_rfind (py_strip content) 93 + 1) = sp"
    by simp_all
  show ?thesis
    by (simp only: ui_try_def assms(1) bind_simps Let_def if_P [OF c] sl)
qed

lemma recommend_assessment_reached:
  assumes "get_products W = Inr products"
    and "format_for_llm R (random_sample W products (min 50 (length products))) 30 = Inr text"
  shows "recommend_assessment R W q k =
           Inr (case ui_try R W (Prompt_UI q k text) of Inr v \<Rightarrow> v | Inl e \<Rightarrow> error_fallback)"
  by (simp add: recommend_assessment_def assms Let_def)

lemma clean_results_objects:
  "\<forall>item \<in> set items. is_object item \<Longrightarrow>
   clean_results items = Inr (map name_url (filter exposes_both items))"
proof (induction items)
  case Nil
  show ?case by simp
next
  case (Cons item items)
  then obtain kvs where item: "item = JObj kvs"
    by (cases item) (simp_all add: is_object_def)
  from Cons have IH: "clean_results items = Inr (map name_url (filter exposes_both items))"
    by simp
  have eb: "exposes_both (JObj kvs) \<longleftrightarrow>
      py ''name'' \<in> set (map fst kvs) \<and> py ''url'' \<in> set (map fst kvs)"
    by (simp add: exposes_both_def)
  show ?case
  proof (cases "py ''name'' \<in> set (map fst kvs)")
    case False
    then show ?thesis by (simp add: item IH eb)
  next
    case True
    note name = this
    show ?thesis
    proof (cases "py ''url'' \<in> set (map fst kvs)")
      case False
      with name show ?thesis by (simp add: item IH eb)
    next
      case True
      from name obtain n where n: "map_of kvs (py ''name'') = Some n"
        by (cases "map_of kvs (py ''name'')") (auto simp: map_of_eq_None_iff)
      from True obtain u where u: "map_of kvs (py ''url'') = Some u"
        by (cases "map_of kvs (py ''url'')") (auto simp: map_of_eq_None_iff)
      have e: "exposes_both (JObj kvs)"
        using name True by (simp add: eb)
      have nu: "name_url (JObj kvs) = JObj [(py ''name'', n), (py ''url'', u)]"
        by (simp add: name_url_def field_def n u)
      have t: "py_in (py ''name'') (JObj kvs) = Inr True" "py_in (py ''url'') (JObj kvs) = Inr True"
        using name True by simp_all
      have g: "py_getitem (JObj kvs) (py ''name'') = Inr n" "py_getitem (JObj kvs) (py ''url'') = Inr u"
        by (simp_all add: n u)
      show ?thesis
        unfolding item clean_results.simps t g IH by (simp add: e nu)
    qed
  qed
qed

lemma recommend_assessment_array:
  assumes "get_products W = Inr products"
    and "format_for_llm R (random_sample W products (min 50 (length products))) 30 = Inr text"
    and "llm_invoke W (Prompt_UI q k text) = Inr content"
    and "bracket_span content = Some sp"
    and "json_loads R sp = Inr (JArr items)"
    and "\<forall>item \<in> set items. is_object item"
  shows "recommend_assessment R W q k = Inr (JArr (map name_url (filter exposes_both items)))"
  unfolding recommend_assessment_reached [OF assms(1,2)] ui_try_span [OF assms(3,4)]
  by (simp add: assms(5) clean_results_objects [OF assms(6)])

text \<open>
  C7. When the LLM call is reached and its reply has no bracketed span (no closing
  bracket behind the first opening bracket), \<^verbatim>\<open>recommend_assessment\<close> returns the list
  of one item, named \<^verbatim>\<open>No suitable assessments found\<close>, with the contact address.
\<close>

theorem C7_no_span_fallback:
  assumes "get_products W = Inr products"
    and "format_for_llm R (random_sample W products (min 50 (length products))) 30 = Inr text"
    and "llm_invoke W (Prompt_UI q k text) = Inr content"
    and "bracket_span content = None"
  shows "recommend_assessment R W q k =
     Inr (JArr [JObj [(py ''name'', JStr (py ''No suitable assessments found'')),
                      (py ''url'', JStr (py ''https://www.shl.com/contact-us/''))]])"
  unfolding recommend_assessment_reached [OF assms(1,2)] ui_try_no_span [OF assms(3,4)]
  by (simp add: no_suitable_fallback_def)

theorem C7_no_span_fallback_witness:
  "recommend_assessment example_ui_runtime
     (example_world (Inr (py ''Sorry, I cannot help with that.''))) (py ''Java developer'') 5 =
     Inr (JArr [JObj [(py ''name'', JStr (py ''No suitable assessments found'')),
                      (py ''url'', JStr (py ''https://www.shl.com/contact-us/''))]])"
proof -
  obtain ptext where "format_for_llm example_ui_runtime example_dataset 30 = Inr ptext"
    using example_format by blast
  then have f: "format_for_llm example_ui_runtime
      (random_sample (example_world (Inr (py ''Sorry, I cannot help with that.'')))
         example_dataset (min 50 (length example_dataset))) 30 = Inr ptext"
    by (simp only: example_sample)
  show ?thesis
    by (rule C7_no_span_fallback [OF example_world_simps(1) f example_world_simps(2) spans(4)])
qed

text \<open>
  C4. When the LLM call is reached and the substring of its reply from the first
  opening bracket through the last closing bracket is decoded by \<^verbatim>\<open>json.loads\<close> to an
  array of objects, \<^verbatim>\<open>recommend_assessment\<close> returns the items of the array that have
  both a name and a url, in their order, each cut down to these two fields.
\<close>

theorem C4_array_cleaned:
  assumes "get_products W = Inr products"
    and "format_for_llm R (random_sample W products (min 50 (length products))) 30 = Inr text"
    and "llm_invoke W (Prompt_UI q k text) = Inr content"
    and "bracket_span content = Some sp"
    and "json_loads R sp = Inr (JArr items)"
    and "\<forall>item \<in> set items. is_object item"
  shows "recommend_assessment R W q k = Inr (JArr (map name_url (filter exposes_both items)))"
  using assms by (rule recommend_assessment_array)

theorem C4_array_cleaned_witness:
  "recommend_assessment example_ui_runtime (example_world (Inr reply_three))
     (py ''Java developer'') 5 =
     Inr (JArr [JObj [(py ''name'', JStr (py ''Java 8'')),
                      (py ''url'', JStr (py ''https://www.shl.com/products/java-8/''))],
                JObj [(py ''name'', JStr (py ''SQL'')),
                      (py ''url'', JStr (py ''https://www.shl.com/products/sql/''))]])"
proof -
  obtain ptext where "format_for_llm example_ui_runtime example_dataset 30 = Inr ptext"
    using example_format by blast
  then have f: "format_for_llm example_ui_runtime
      (random_sample (example_world (Inr reply_three))
         example_dataset (min 50 (length example_dataset))) 30 = Inr ptext"
    by (simp only: example_sample)
  have l: "json_loads example_ui_runtime span_three = Inr (JArr items_three)"
    by (simp add: example_ui_runtime_def example_loads_def span_three_def py_def)
  have o: "\<forall>item \<in> set items_three. is_object item"
    by (simp add: items_three_def is_object_def)
  have m: "map name_url (filter exposes_both items_three) =
     [JObj [(py ''name'', JStr (py ''Java 8'')),
            (py ''url'', JStr (py ''https://www.shl.com/products/java-8/''))],
      JObj [(py ''name'', JStr (py ''SQL'')),
            (py ''url'', JStr (py ''https://www.shl.com/products/sql/''))]]"
    by (simp add: items_three_def exposes_both_def name_url_def field_def)
  show ?thesis
    using C4_array_cleaned [OF example_world_simps(1) f example_world_simps(2) spans(1) l o]
    unfolding m .
qed

section \<open>The API shape\<close>

lemma build_assessments_length:
  "build_assessments U S idxs = Inr xs \<Longrightarrow> length xs = length idxs"
proof (induction idxs arbitrary: xs)
  case Nil
  then show ?case by simp
next
  case (Cons i idxs)
  from Cons.prems obtain product where p: "py_index S i = Inr product"
    by (cases "py_index S i") simp_all
  from Cons.prems p obtain a where a: "extract_product_api_format U product = Inr a"
    by (cases "extract_product_api_format U product") simp_all
  from Cons.prems p a obtain others where o: "build_assessments U S idxs = Inr others"
    by (cases "build_assessments U S idxs") simp_all
  from Cons.prems p a o have "xs = a # others" by simp
  with Cons.IH [OF o] show ?case by simp
qed

lemma py_slice_take: "0 \<le> k \<Longrightarrow> py_slice xs 0 k = take (nat k) xs"
  by (simp add: py_slice_def slice_bound_def min_def)

lemma select_indices_length:
  assumes "0 \<le> k"
  shows "length (select_indices U t n k) \<le> nat k"
  using assms by (auto simp: select_indices_def Let_def py_slice_take min_def)

lemma select_indices_nonempty:
  assumes "1 \<le> k" "0 < n"
  shows "select_indices U t n k \<noteq> []"
  using assms by (auto simp: select_indices_def Let_def min_def)

lemma api_try_Inr:
  assumes "api_try R W S p k = Inr v"
  obtains c xs where "llm_invoke W p = Inr c"
    "build_assessments (unicode R) S (select_indices (unicode R) (py_strip c) (length S) k) = Inr xs"
    "v = JObj [(py ''recommended_assessments'', JArr xs)]"
proof -
  from assms obtain c where c: "llm_invoke W p = Inr c"
    unfolding api_try_def by (cases "llm_invoke W p") simp_all
  let ?b = "build_assessments (unicode R) S (select_indices (unicode R) (py_strip c) (length S) k)"
  from assms c obtain xs where xs: "?b = Inr xs"
    unfolding api_try_def by (cases ?b) (simp_all add: Let_def)
  from assms c xs have "v = JObj [(py ''recommended_assessments'', JArr xs)]"
    unfolding api_try_def by (simp add: Let_def)
  with c xs show thesis by (rule that)
qed

lemma api_reached:
  assumes "get_products W = Inr products"
    and "format_for_llm R (random_sample W products (min 50 (length products))) 30 = Inr text"
  shows "recommend_assessment_api_format R W q k =
     Inr (case api_try R W (random_sample W products (min 50 (length products)))
                 (Prompt_API q k text) k of
            Inr v \<Rightarrow> v
          | Inl e \<Rightarrow> api_error_fallback R e)"
  by (simp add: recommend_assessment_api_format_def assms Let_def)

lemma api_list:
  assumes "get_products W = Inr products"
    and "format_for_llm R (random_sample W products (min 50 (length products))) 30 = Inr text"
  obtains xs where
    "recommend_assessment_api_format R W q k = Inr (JObj [(py ''recommended_assessments'', JArr xs)])"
    "1 \<le> k \<longrightarrow> int (length xs) \<le> k"
    "1 \<le> k \<and> random_sample W products (min 50 (length products)) \<noteq> [] \<longrightarrow> xs \<noteq> []"
proof -
  let ?S = "random_sample W products (min 50 (length products))"
  show thesis
  proof (cases "api_try R W ?S (Prompt_API q k text) k")
    case (Inl e)
    let ?x = "JObj [(py ''url'', JStr (py ''https://www.shl.com/contact-us/'')),
                        (py ''adaptive_support'', JStr (py ''No'')),
                        (py ''description'',
                           JStr (py ''Error retrieving recommendations: '' @ exn_str R e)),
                        (py ''duration'', JInt 60),
                        (py ''remote_support'', JStr (py ''Yes'')),
                        (py ''test_type'', JArr [JStr (py ''Error'')])]"
    have "recommend_assessment_api_format R W q k =
        Inr (JObj [(py ''recommended_assessments'', JArr [?x])])"
      unfolding api_reached [OF assms] Inl by (simp add: api_error_fallback_def)
    then show thesis by (rule that) simp_all
  next
    case (Inr v)
    then obtain c xs where c: "llm_invoke W (Prompt_API q k text) = Inr c"
      and b: "build_assessments (unicode R) ?S
                (select_indices (unicode R) (py_strip c) (length ?S) k) = Inr xs"
      and v: "v = JObj [(py ''recommended_assessments'', JArr xs)]"
      by (rule api_try_Inr)
    have l: "length xs = length (select_indices (unicode R) (py_strip c) (length ?S) k)"
      using b by (rule build_assessments_length)
    have r: "recommend_assessment_api_format R W q k =
        Inr (JObj [(py ''recommended_assessments'', JArr xs)])"
      unfolding api_reached [OF assms] Inr by (simp add: v)
    have le: "1 \<le> k \<longrightarrow> int (length xs) \<le> k"
    proof
      assume "1 \<le> k"
      then have "0 \<le> k" by simp
      from select_indices_length [OF this, of "unicode R" "py_strip c" "length ?S"] l \<open>0 \<le> k\<close>
      show "int (length xs) \<le> k" by simp
    qed
    have ne: "1 \<le> k \<and> ?S \<noteq> [] \<longrightarrow> xs \<noteq> []"
    proof
      assume "1 \<le> k \<and> ?S \<noteq> []"
      then have "1 \<le> k" "0 < length ?S" by simp_all
      from select_indices_nonempty [OF this, of "unicode R" "py_strip c"] l
      show "xs \<noteq> []" by auto
    qed
    from r le ne show thesis by (rule that)
  qed
qed

lemma ui_cases:
  assumes "get_products W = Inr products"
    and "format_for_llm R (random_sample W products (min 50 (length products))) 30 = Inr text"
  shows "(\<forall>e. llm_invoke W (Prompt_UI q k text) = Inl e \<longrightarrow>
            recommend_assessment R W q k = Inr error_fallback)"
    and "(\<forall>c. llm_invoke W (Prompt_UI q k text) = Inr c \<and> bracket_span c = None \<longrightarrow>
            recommend_assessment R W q k = Inr no_suitable_fallback)"
    and "(\<forall>c sp e. llm_invoke W (Prompt_UI q k text) = Inr c \<and> bracket_span c = Some sp \<and>
            json_loads R sp = Inl e \<longrightarrow>
            recommend_assessment R W q k = Inr error_fallback)"
    and "(\<forall>c sp results e. llm_invoke W (Prompt_UI q k text) = Inr c \<and>
            bracket_span c = Some sp \<and> json_loads R sp = Inr results \<and>
            bind (py_iter results) clean_results = Inl e \<longrightarrow>
            recommend_assessment R W q k = Inr error_fallback)"
    and "(\<forall>c sp results cleaned. llm_invoke W (Prompt_UI q k text) = Inr c \<and>
            bracket_span c = Some sp \<and> json_loads R sp = Inr results \<and>
            bind (py_iter results) clean_results = Inr cleaned \<longrightarrow>
            recommend_assessment R W q k = Inr (JArr cleaned))"
proof -
  note r = recommend_assessment_reached [OF assms]
  show "\<forall>e. llm_invoke W (Prompt_UI q k text) = Inl e \<longrightarrow>
            recommend_assessment R W q k = Inr error_fallback"
    by (simp add: r ui_try_raise)
  show "\<forall>c. llm_invoke W (Prompt_UI q k text) = Inr c \<and> bracket_span c = None \<longrightarrow>
            recommend_assessment R W q k = Inr no_suitable_fallback"
    by (simp add: r ui_try_no_span)
  show "\<forall>c sp e. llm_invoke W (Prompt_UI q k text) = Inr c \<and> bracket_span c = Some sp \<and>
            json_loads R sp = Inl e \<longrightarrow>
            recommend_assessment R W q k = Inr error_fallback"
    by (simp add: r ui_try_span)
  show "\<forall>c sp results e. llm_invoke W (Prompt_UI q k text) = Inr c \<and>
            bracket_span c = Some sp \<and> json_loads R sp = Inr results \<and>
            bind (py_iter results) clean_results = Inl e \<longrightarrow>
            recommend_assessment R W q k = Inr error_fallback"
  proof (intro allI impI, elim conjE)
    fix c sp results e
    assume a: "llm_invoke W (Prompt_UI q k text) = Inr c" "bracket_span c = Some sp"
      "json_loads R sp = Inr results" "bind (py_iter results) clean_results = Inl e"
    show "recommend_assessment R W q k = Inr error_fallback"
    proof (cases "py_iter results")
      case (Inl e')
      then show ?thesis by (simp add: r ui_try_span [OF a(1,2)] a(3))
    next
      case (Inr items)
      with a(4) have "clean_results items = Inl e" by simp
      with Inr show ?thesis by (simp add: r ui_try_span [OF a(1,2)] a(3))
    qed
  qed
  show "\<forall>c sp results cleaned. llm_invoke W (Prompt_UI q k text) = Inr c \<and>
            bracket_span c = Some sp \<and> json_loads R sp = Inr results \<and>
            bind (py_iter results) clean_results = Inr cleaned \<longrightarrow>
            recommend_assessment R W q k = Inr (JArr cleaned)"
  proof (intro allI impI, elim conjE)
    fix c sp results cleaned
    assume a: "llm_invoke W (Prompt_UI q k text) = Inr c" "bracket_span c = Some sp"
      "json_loads R sp = Inr results" "bind (py_iter results) clean_results = Inr cleaned"
    from a(4) obtain items where "py_iter results = Inr items" "clean_results items = Inr cleaned"
      by (cases "py_iter results") simp_all
    then show "recommend_assessment R W q k = Inr (JArr cleaned)"
      by (simp add: r ui_try_span [OF a(1,2)] a(3))
  qed
qed

lemma fallbacks_differ: "no_suitable_fallback \<noteq> error_fallback"
  by (simp add: no_suitable_fallback_def error_fallback_def)

lemma example_prompt:
  obtains ptext where
    "format_for_llm example_ui_runtime
       (random_sample (example_world outcome) example_dataset (min 50 (length example_dataset)))
       30 = Inr ptext"
proof -
  obtain ptext where "format_for_llm example_ui_runtime example_dataset 30 = Inr ptext"
    using example_format by blast
  then have "format_for_llm example_ui_runtime
      (random_sample (example_world outcome) example_dataset (min 50 (length example_dataset)))
      30 = Inr ptext"
    by (simp only: example_sample)
  then show thesis by (rule that)
qed

lemma example_loads_simps:
  "json_loads example_ui_runtime (py ''[]'') = Inr (JArr [])"
  "json_loads example_ui_runtime span_three = Inr (JArr items_three)"
  "json_loads example_ui_runtime reply_echo =
     Inr (JArr [JObj [(py ''name'', JStr (py ''No suitable assessments found'')),
                      (py ''url'', JStr (py ''https://www.shl.com/contact-us/''))]])"
  "json_loads example_ui_runtime (py ''[attached]'') = Inl JSONDecodeError"
  by (simp_all add: example_ui_runtime_def example_loads_def span_three_def reply_echo_def py_def)

lemma span_attached: "bracket_span (py ''See the [attached] list.'') = Some (py ''[attached]'')"
  by (simp add: bracket_span_def py_def)

lemma three_cleaned:
  "map name_url (filter exposes_both items_three) =
     [JObj [(py ''name'', JStr (py ''Java 8'')),
            (py ''url'', JStr (py ''https://www.shl.com/products/java-8/''))],
      JObj [(py ''name'', JStr (py ''SQL'')),
            (py ''url'', JStr (py ''https://www.shl.com/products/sql/''))]]"
  by (simp add: items_three_def exposes_both_def name_url_def field_def)

lemma three_objects: "\<forall>item \<in> set items_three. is_object item"
  by (simp add: items_three_def is_object_def)

text \<open>
  C10, as stated, fails: the stand-in for no suitable assessment is not returned only
  when the reply has no bracketed span. The reply \<open>reply_echo\<close> has a span, a valid JSON
  array that holds that very item; the service returns it as a genuine result, and the
  caller reads the stand-in.
\<close>

theorem C10_echoed_stand_in:
  "bracket_span reply_echo = Some reply_echo \<and>
   recommend_assessment example_ui_runtime (example_world (Inr reply_echo))
     (py ''Java developer'') 5 = Inr no_suitable_fallback"
proof
  show "bracket_span reply_echo = Some reply_echo" by (rule spans(2))
  obtain ptext where f: "format_for_llm example_ui_runtime
       (random_sample (example_world (Inr reply_echo)) example_dataset
          (min 50 (length example_dataset))) 30 = Inr ptext"
    by (rule example_prompt)
  have o: "\<forall>item \<in> set [JObj [(py ''name'', JStr (py ''No suitable assessments found'')),
                      (py ''url'', JStr (py ''https://www.shl.com/contact-us/''))]]. is_object item"
    by (simp add: is_object_def)
  from recommend_assessment_array [OF example_world_simps(1) f example_world_simps(2)
      spans(2) example_loads_simps(3) o]
  show "recommend_assessment example_ui_runtime (example_world (Inr reply_echo))
     (py ''Java developer'') 5 = Inr no_suitable_fallback"
    by (simp add: exposes_both_def name_url_def field_def no_suitable_fallback_def)
qed

text \<open>
  C10, amended. Once the LLM call is reached, the three outcomes arise from disjoint
  conditions. An exception of the call, a bracketed span that \<^verbatim>\<open>json.loads\<close> rejects, or
  an exception while the decoded value is walked, yields the list with the item named
  \<^verbatim>\<open>Error retrieving recommendations\<close>; a reply without a bracketed span yields the
  list with the item named \<^verbatim>\<open>No suitable assessments found\<close>; otherwise the cleaned
  array is returned. The two fallback lists differ. When the reply has a span, the
  result is the second list only if the decoded array itself cleans to that one item.
\<close>

theorem C10_three_outcomes:
  assumes "get_products W = Inr products"
    and "format_for_llm R (random_sample W products (min 50 (length products))) 30 = Inr text"
  shows "no_suitable_fallback \<noteq> error_fallback \<and>
    (\<forall>e. llm_invoke W (Prompt_UI q k text) = Inl e \<longrightarrow>
            recommend_assessment R W q k = Inr error_fallback) \<and>
    (\<forall>c. llm_invoke W (Prompt_UI q k text) = Inr c \<and> bracket_span c = None \<longrightarrow>
            recommend_assessment R W q k = Inr no_suitable_fallback) \<and>
    (\<forall>c sp e. llm_invoke W (Prompt_UI q k text) = Inr c \<and> bracket_span c = Some sp \<and>
            json_loads R sp = Inl e \<longrightarrow>
            recommend_assessment R W q k = Inr error_fallback) \<and>
    (\<forall>c sp results e. llm_invoke W (Prompt_UI q k text) = Inr c \<and>
            bracket_span c = Some sp \<and> json_loads R sp = Inr results \<and>
            bind (py_iter results) clean_results = Inl e \<longrightarrow>
            recommend_assessment R W q k = Inr error_fallback) \<and>
    (\<forall>c sp results cleaned. llm_invoke W (Prompt_UI q k text) = Inr c \<and>
            bracket_span c = Some sp \<and> json_loads R sp = Inr results \<and>
            bind (py_iter results) clean_results = Inr cleaned \<longrightarrow>
            recommend_assessment R W q k = Inr (JArr cleaned)) \<and>
    (\<forall>c sp. llm_invoke W (Prompt_UI q k text) = Inr c \<and> bracket_span c = Some sp \<and>
            recommend_assessment R W q k = Inr no_suitable_fallback \<longrightarrow>
            (\<exists>results. json_loads R sp = Inr results \<and>
               bind (py_iter results) clean_results =
                 Inr [JObj [(py ''name'', JStr (py ''No suitable assessments found'')),
                            (py ''url'', JStr (py ''https://www.shl.com/contact-us/''))]]))"
proof (intro conjI)
  note u = ui_cases [OF assms, of q k]
  show "no_suitable_fallback \<noteq> error_fallback" by (rule fallbacks_differ)
  show "\<forall>e. llm_invoke W (Prompt_UI q k text) = Inl e \<longrightarrow>
            recommend_assessment R W q k = Inr error_fallback" by (rule u(1))
  show "\<forall>c. llm_invoke W (Prompt_UI q k text) = Inr c \<and> bracket_span c = None \<longrightarrow>
            recommend_assessment R W q k = Inr no_suitable_fallback" by (rule u(2))
  show "\<forall>c sp e. llm_invoke W (Prompt_UI q k text) = Inr c \<and> bracket_span c = Some sp \<and>
            json_loads R sp = Inl e \<longrightarrow>
            recommend_assessment R W q k = Inr error_fallback" by (rule u(3))
  show "\<forall>c sp results e. llm_invoke W (Prompt_UI q k text) = Inr c \<and>
            bracket_span c = Some sp \<and> json_loads R sp = Inr results \<and>
            bind (py_iter results) clean_results = Inl e \<longrightarrow>
            recommend_assessment R W q k = Inr error_fallback" by (rule u(4))
  show "\<forall>c sp results cleaned. llm_invoke W (Prompt_UI q k text) = Inr c \<and>
            bracket_span c = Some sp \<and> json_loads R sp = Inr results \<and>
            bind (py_iter results) clean_results = Inr cleaned \<longrightarrow>
            recommend_assessment R W q k = Inr (JArr cleaned)" by (rule u(5))
  show "\<forall>c sp. llm_invoke W (Prompt_UI q k text) = Inr c \<and> bracket_span c = Some sp \<and>
            recommend_assessment R W q k = Inr no_suitable_fallback \<longrightarrow>
            (\<exists>results. json_loads R sp = Inr results \<and>
               bind (py_iter results) clean_results =
                 Inr [JObj [(py ''name'', JStr (py ''No suitable assessments found'')),
                            (py ''url'', JStr (py ''https://www.shl.com/contact-us/''))]])"
  proof (intro allI impI, elim conjE)
    fix c sp
    assume a: "llm_invoke W (Prompt_UI q k text) = Inr c" "bracket_span c = Some sp"
      and n: "recommend_assessment R W q k = Inr no_suitable_fallback"
    show "\<exists>results. json_loads R sp = Inr results \<and>
               bind (py_iter results) clean_results =
                 Inr [JObj [(py ''name'', JStr (py ''No suitable assessments found'')),
                            (py ''url'', JStr (py ''https://www.shl.com/contact-us/''))]]"
    proof (cases "json_loads R sp")
      case (Inl e)
      with u(3) a have "recommend_assessment R W q k = Inr error_fallback" by blast
      with n fallbacks_differ show ?thesis by simp
    next
      case (Inr results)
      note results = this
      show ?thesis
      proof (cases "bind (py_iter results) clean_results")
        case (Inl e)
        with u(4) a results have "recommend_assessment R W q k = Inr error_fallback" by blast
        with n fallbacks_differ show ?thesis by simp
      next
        case (Inr cleaned)
        with u(5) a results have "recommend_assessment R W q k = Inr (JArr cleaned)" by blast
        with n have "cleaned = [JObj [(py ''name'', JStr (py ''No suitable assessments found'')),
                            (py ''url'', JStr (py ''https://www.shl.com/contact-us/''))]]"
          by (simp add: no_suitable_fallback_def)
        with Inr results show ?thesis by simp
      qed
    qed
  qed
qed

theorem C10_three_outcomes_witness:
  "recommend_assessment example_ui_runtime
     (example_world (Inl (LibraryError (py ''429 quota exceeded'')))) (py ''Java developer'') 5
     = Inr error_fallback \<and>
   recommend_assessment example_ui_runtime
     (example_world (Inr (py ''Sorry, I cannot help with that.''))) (py ''Java developer'') 5
     = Inr no_suitable_fallback \<and>
   recommend_assessment example_ui_runtime
     (example_world (Inr (py ''See the [attached] list.''))) (py ''Java developer'') 5
     = Inr error_fallback \<and>
   recommend_assessment example_ui_runtime
     (example_world (Inr reply_three)) (py ''Java developer'') 5
     = Inr (JArr [JObj [(py ''name'', JStr (py ''Java 8'')),
                        (py ''url'', JStr (py ''https://www.shl.com/products/java-8/''))],
                  JObj [(py ''name'', JStr (py ''SQL'')),
                        (py ''url'', JStr (py ''https://www.shl.com/products/sql/''))]])"
proof (intro conjI)
  let ?q = "py ''Java developer''"
  let ?W1 = "example_world (Inl (LibraryError (py ''429 quota exceeded'')))"
  obtain t1 where f1: "format_for_llm example_ui_runtime
       (random_sample ?W1 example_dataset (min 50 (length example_dataset))) 30 = Inr t1"
    by (rule example_prompt)
  note T1 = C10_three_outcomes [OF example_world_simps(1) f1, of ?q 5]
  from T1 [THEN conjunct2, THEN conjunct1, THEN spec, of "LibraryError (py ''429 quota exceeded'')"]
    example_world_simps(2) [of "Inl (LibraryError (py ''429 quota exceeded''))" "Prompt_UI ?q 5 t1"]
  show "recommend_assessment example_ui_runtime ?W1 ?q 5 = Inr error_fallback"
    by (rule mp)
  let ?W2 = "example_world (Inr (py ''Sorry, I cannot help with that.''))"
  obtain t2 where f2: "format_for_llm example_ui_runtime
       (random_sample ?W2 example_dataset (min 50 (length example_dataset))) 30 = Inr t2"
    by (rule example_prompt)
  note T2 = C10_three_outcomes [OF example_world_simps(1) f2, of ?q 5]
  have h2: "llm_invoke ?W2 (Prompt_UI ?q 5 t2) = Inr (py ''Sorry, I cannot help with that.'') \<and>
      bracket_span (py ''Sorry, I cannot help with that.'') = None"
    by (simp add: example_world_simps spans)
  from T2 [THEN conjunct2, THEN conjunct2, THEN conjunct1, THEN spec,
      of "py ''Sorry, I cannot help with that.''"] h2
  show "recommend_assessment example_ui_runtime ?W2 ?q 5 = Inr no_suitable_fallback"
    by (rule mp)
  let ?W3 = "example_world (Inr (py ''See the [attached] list.''))"
  obtain t3 where f3: "format_for_llm example_ui_runtime
       (random_sample ?W3 example_dataset (min 50 (length example_dataset))) 30 = Inr t3"
    by (rule example_prompt)
  note T3 = C10_three_outcomes [OF example_world_simps(1) f3, of ?q 5]
  have h3: "llm_invoke ?W3 (Prompt_UI ?q 5 t3) = Inr (py ''See the [attached] list.'') \<and>
      bracket_span (py ''See the [attached] list.'') = Some (py ''[attached]'') \<and>
      json_loads example_ui_runtime (py ''[attached]'') = Inl JSONDecodeError"
    by (simp add: example_world_simps span_attached example_loads_simps)
  from T3 [THEN conjunct2, THEN conjunct2, THEN conjunct2, THEN conjunct1, THEN spec, THEN spec,
      THEN spec, of "py ''See the [attached] list.''" "py ''[attached]''" JSONDecodeError] h3
  show "recommend_assessment example_ui_runtime ?W3 ?q 5 = Inr error_fallback"
    by (rule mp)
  let ?W4 = "example_world (Inr reply_three)"
  obtain t4 where f4: "format_for_llm example_ui_runtime
       (random_sample ?W4 example_dataset (min 50 (length example_dataset))) 30 = Inr t4"
    by (rule example_prompt)
  note T4 = C10_three_outcomes [OF example_world_simps(1) f4, of ?q 5]
  have h4: "llm_invoke ?W4 (Prompt_UI ?q 5 t4) = Inr reply_three \<and>
      bracket_span reply_three = Some span_three \<and>
      json_loads example_ui_runtime span_three = Inr (JArr items_three) \<and>
      bind (py_iter (JArr items_three)) clean_results =
        Inr (map name_url (filter exposes_both items_three))"
    by (simp add: example_world_simps spans example_loads_simps
        clean_results_objects [OF three_objects])
  from T4 [THEN conjunct2, THEN conjunct2, THEN conjunct2, THEN conjunct2, THEN conjunct2,
      THEN conjunct1, THEN spec, THEN spec, THEN spec, THEN spec,
      of reply_three span_three "JArr items_three" "map name_url (filter exposes_both items_three)"]
    h4
  have "recommend_assessment example_ui_runtime ?W4 ?q 5 =
      Inr (JArr (map name_url (filter exposes_both items_three)))"
    by (rule mp)
  then show "recommend_assessment example_ui_runtime ?W4 ?q 5
     = Inr (JArr [JObj [(py ''name'', JStr (py ''Java 8'')),
                        (py ''url'', JStr (py ''https://www.shl.com/products/java-8/''))],
                  JObj [(py ''name'', JStr (py ''SQL'')),
                        (py ''url'', JStr (py ''https://www.shl.com/products/sql/''))]])"
    by (simp only: three_cleaned)
qed

text \<open>
  C3, as stated, fails for the UI shape: with k = 1 and a reply whose array holds two
  items with both fields, both are returned.
\<close>

theorem C3_ui_exceeds_k:
  "recommend_assessment example_ui_runtime (example_world (Inr reply_three))
     (py ''Java developer'') 1 =
     Inr (JArr [JObj [(py ''name'', JStr (py ''Java 8'')),
                      (py ''url'', JStr (py ''https://www.shl.com/products/java-8/''))],
                JObj [(py ''name'', JStr (py ''SQL'')),
                      (py ''url'', JStr (py ''https://www.shl.com/products/sql/''))]])"
proof -
  obtain ptext where f: "format_for_llm example_ui_runtime
       (random_sample (example_world (Inr reply_three)) example_dataset
          (min 50 (length example_dataset))) 30 = Inr ptext"
    by (rule example_prompt)
  from recommend_assessment_array [OF example_world_simps(1) f example_world_simps(2)
      spans(1) example_loads_simps(2) three_objects]
  show ?thesis by (simp only: three_cleaned)
qed

text \<open>
  C3, amended. For every query and every k that is at least 1, once the dataset has
  loaded and the text of the products has been built, the API shape holds a list of at
  most k records under the key \<^verbatim>\<open>recommended_assessments\<close>. The UI shape is not cut to
  k: when the reply decodes to an array of objects, every item with both fields is
  returned.
\<close>

theorem C3_api_at_most_k:
  assumes "1 \<le> k"
    and "get_products W = Inr products"
    and "format_for_llm R (random_sample W products (min 50 (length products))) 30 = Inr text"
  shows "(\<exists>xs. recommend_assessment_api_format R W q k =
                 Inr (JObj [(py ''recommended_assessments'', JArr xs)]) \<and>
               int (length xs) \<le> k) \<and>
         (\<forall>c sp items. llm_invoke W (Prompt_UI q k text) = Inr c \<and>
             bracket_span c = Some sp \<and> json_loads R sp = Inr (JArr items) \<and>
             (\<forall>item \<in> set items. is_object item) \<longrightarrow>
             recommend_assessment R W q k =
               Inr (JArr (map name_url (filter exposes_both items))))"
proof
  obtain xs where
    x: "recommend_assessment_api_format R W q k =
          Inr (JObj [(py ''recommended_assessments'', JArr xs)])"
      "1 \<le> k \<longrightarrow> int (length xs) \<le> k"
    using api_list [OF assms(2,3), of q k] by blast
  with assms(1) have "recommend_assessment_api_format R W q k =
                 Inr (JObj [(py ''recommended_assessments'', JArr xs)]) \<and>
               int (length xs) \<le> k"
    by simp
  then show "\<exists>xs. recommend_assessment_api_format R W q k =
                 Inr (JObj [(py ''recommended_assessments'', JArr xs)]) \<and>
               int (length xs) \<le> k"
    by (intro exI)
  show "\<forall>c sp items. llm_invoke W (Prompt_UI q k text) = Inr c \<and>
             bracket_span c = Some sp \<and> json_loads R sp = Inr (JArr items) \<and>
             (\<forall>item \<in> set items. is_object item) \<longrightarrow>
             recommend_assessment R W q k =
               Inr (JArr (map name_url (filter exposes_both items)))"
  proof (intro allI impI, elim conjE)
    fix c sp items
    assume "llm_invoke W (Prompt_UI q k text) = Inr c" "bracket_span c = Some sp"
      "json_loads R sp = Inr (JArr items)" "\<forall>item \<in> set items. is_object item"
    with assms(2,3) show "recommend_assessment R W q k =
               Inr (JArr (map name_url (filter exposes_both items)))"
      by (rule recommend_assessment_array)
  qed
qed

theorem C3_api_at_most_k_witness:
  "(\<exists>xs. recommend_assessment_api_format example_ui_runtime
            (example_world (Inr reply_three)) (py ''Java developer'') 1 =
              Inr (JObj [(py ''recommended_assessments'', JArr xs)]) \<and> int (length xs) \<le> 1) \<and>
   recommend_assessment example_ui_runtime (example_world (Inr reply_three))
     (py ''Java developer'') 1 =
     Inr (JArr (map name_url (filter exposes_both items_three)))"
proof -
  let ?W = "example_world (Inr reply_three)"
  let ?q = "py ''Java developer''"
  obtain ptext where f: "format_for_llm example_ui_runtime
       (random_sample ?W example_dataset (min 50 (length example_dataset))) 30 = Inr ptext"
    by (rule example_prompt)
  have k: "(1::int) \<le> 1" by simp
  note T = C3_api_at_most_k [OF k example_world_simps(1) f, of ?q]
  have h: "llm_invoke ?W (Prompt_UI ?q 1 ptext) = Inr reply_three \<and>
      bracket_span reply_three = Some span_three \<and>
      json_loads example_ui_runtime span_three = Inr (JArr items_three) \<and>
      (\<forall>item \<in> set items_three. is_object item)"
    using three_objects by (simp add: example_world_simps spans example_loads_simps)
  from T [THEN conjunct2, THEN spec, THEN spec, THEN spec, of reply_three span_three items_three] h
  have "recommend_assessment example_ui_runtime ?W ?q 1 =
     Inr (JArr (map name_url (filter exposes_both items_three)))"
    by (rule mp)
  with T [THEN conjunct1] show ?thesis by (rule conjI)
qed

section \<open>The index mode\<close>

lemma decimal_is_word: "is_decimal U c \<Longrightarrow> is_word U c"
  by (simp add: is_word_def)

lemma match_no_digit:
  "\<not> is_decimal U c \<Longrightarrow> match_digits_at U prev (c # cs) = None"
  by (simp add: match_digits_at_def)

lemma match_after_word:
  "opt_word U prev \<Longrightarrow> is_decimal U c \<Longrightarrow> match_digits_at U prev (c # cs) = None"
  by (simp add: match_digits_at_def word_boundary_def nth_opt_def opt_word_def decimal_is_word)

lemma nth_opt_run:
  assumes "n < length (takeWhile P s)"
  shows "nth_opt s n = Some (s ! n) \<and> P (s ! n)"
proof -
  have "n < length s" using assms length_takeWhile_le [of P s] by simp
  moreover have "takeWhile P s ! n = s ! n" using assms by (rule takeWhile_nth)
  moreover have "takeWhile P s ! n \<in> set (takeWhile P s)" using assms by simp
  ultimately show ?thesis by (auto simp: nth_opt_def dest: set_takeWhileD)
qed

lemma nth_opt_after_run:
  "nth_opt s (length (takeWhile P s)) =
     (case dropWhile P s of [] \<Rightarrow> None | x # xs \<Rightarrow> Some x)"
proof (cases "dropWhile P s")
  case Nil
  have "length (takeWhile P s) = length s"
    using Nil by (metis takeWhile_dropWhile_id append_Nil2)
  then have "nth_opt s (length (takeWhile P s)) = None" by (simp only: nth_opt_def) simp
  with Nil show ?thesis by (simp only: list.case)
next
  case (Cons x xs)
  have s: "s = takeWhile P s @ x # xs"
    using takeWhile_dropWhile_id [of P s] Cons by simp
  then have l: "length (takeWhile P s) < length s"
    by (metis length_append length_Cons less_add_Suc1 add_Suc_right)
  have "s ! length (takeWhile P s) = x"
    using s by (metis nth_append_length)
  with Cons l show ?thesis by (simp add: nth_opt_def)
qed

lemma match_run:
  assumes "is_decimal U c" "\<not> opt_word U prev"
  shows "match_digits_at U prev (c # cs) =
     (if opt_word U (case dropWhile (is_decimal U) cs of [] \<Rightarrow> None | x # xs \<Rightarrow> Some x)
      then None else Some (Suc (length (takeWhile (is_decimal U) cs))))"
proof -
  let ?s = "c # cs"
  let ?L = "length (takeWhile (is_decimal U) ?s)"
  let ?P = "\<lambda>n. word_boundary U (nth_opt ?s (n - 1)) (nth_opt ?s n)"
  let ?nx = "case dropWhile (is_decimal U) cs of [] \<Rightarrow> None | x # xs \<Rightarrow> Some x"
  have L: "?L = Suc (length (takeWhile (is_decimal U) cs))" using assms(1) by simp
  have b: "word_boundary U prev (nth_opt ?s 0)"
    using assms by (simp add: word_boundary_def nth_opt_def opt_word_def decimal_is_word)
  have inner: "\<not> ?P n" if "1 \<le> n" "n < ?L" for n
  proof -
    from that have "n - 1 < ?L" by simp
    from nth_opt_run [OF this] nth_opt_run [OF that(2)] show ?thesis
      by (simp add: word_boundary_def opt_word_def decimal_is_word)
  qed
  have "?L - 1 < ?L" using L by simp
  from nth_opt_run [OF this]
  have lastw: "opt_word U (nth_opt ?s (?L - 1))"
    by (simp add: opt_word_def decimal_is_word)
  have nx: "nth_opt ?s ?L = ?nx"
    using nth_opt_after_run [of ?s "is_decimal U"] assms(1) by simp
  have PL: "?P ?L \<longleftrightarrow> \<not> opt_word U ?nx"
    using lastw nx by (simp add: word_boundary_def)
  have cand: "rev [1 ..< Suc ?L] = ?L # rev [1 ..< ?L]"
    using L by simp
  have rest: "List.find ?P (rev [1 ..< ?L]) = None"
    using inner by (auto simp: find_None_iff)
  have "List.find ?P (rev [1 ..< Suc ?L]) = (if ?P ?L then Some ?L else None)"
    unfolding cand using rest by simp
  then have M: "match_digits_at U prev ?s = (if ?P ?L then Some ?L else None)"
    using b by (simp only: match_digits_at_def if_True)
  show ?thesis
  proof (cases "opt_word U ?nx")
    case True
    with PL have "\<not> ?P ?L" by (simp only: not_True_eq_False not_False_eq_True simp_thms)
    with M have "match_digits_at U prev ?s = None" by (simp only: if_False)
    with True show ?thesis by (simp only: if_True)
  next
    case False
    with PL have "?P ?L" by (simp only: simp_thms)
    with M have "match_digits_at U prev ?s = Some ?L" by (simp only: if_True)
    with False show ?thesis by (simp only: if_False L)
  qed
qed

lemma findall_skip:
  assumes "is_word U w" "\<forall>c \<in> set d. is_decimal U c"
  shows "findall_digits U (Some w) (d @ rest) = findall_digits U (Some (last (w # d))) rest"
  using assms
proof (induction d arbitrary: w)
  case Nil
  show ?case by simp
next
  case (Cons x d)
  then have x: "is_decimal U x" by simp
  have "match_digits_at U (Some w) (x # d @ rest) = None"
    using Cons.prems(1) x by (simp add: match_after_word opt_word_def)
  then have "findall_digits U (Some w) ((x # d) @ rest) = findall_digits U (Some x) (d @ rest)"
    by simp
  also have "\<dots> = findall_digits U (Some (last (x # d))) rest"
    using Cons.IH [of x] Cons.prems(2) x by (simp add: decimal_is_word)
  finally show ?case by simp
qed

lemma findall_runs:
  "findall_digits U prev s =
     map (\<lambda>(p, r, n). r)
       (filter (\<lambda>(p, r, n). \<not> opt_word U p \<and> \<not> opt_word U n) (digit_runs U prev s))"
proof (induction U prev s rule: digit_runs.induct)
  case (1 U prev)
  show ?case by simp
next
  case (2 U prev c cs)
  let ?r = "takeWhile (is_decimal U) cs"
  let ?rest = "dropWhile (is_decimal U) cs"
  let ?nx = "case ?rest of [] \<Rightarrow> None | x # xs \<Rightarrow> Some x"
  show ?case
  proof (cases "is_decimal U c")
    case False
    with 2(2) match_no_digit [OF False] show ?thesis by simp
  next
    case True
    note IH = 2(1) [OF True]
    have skip: "findall_digits U (Some c) cs = findall_digits U (Some (last (c # ?r))) ?rest"
    proof -
      have "\<forall>x \<in> set ?r. is_decimal U x" by (auto dest: set_takeWhileD)
      from findall_skip [OF decimal_is_word [OF True] this, of ?rest]
      show ?thesis by simp
    qed
    show ?thesis
    proof (cases "\<not> opt_word U prev \<and> \<not> opt_word U ?nx")
      case True
      then have m: "match_digits_at U prev (c # cs) = Some (Suc (length ?r))"
        using match_run [OF \<open>is_decimal U c\<close>, of prev cs] by simp
      have t: "take (Suc (length ?r)) (c # cs) = c # ?r"
        by (simp add: takeWhile_eq_take [symmetric])
      have d: "drop (Suc (length ?r)) (c # cs) = ?rest"
        by (simp add: dropWhile_eq_drop [symmetric])
      have "length ?r < length (c # cs)"
        using length_takeWhile_le [of "is_decimal U" cs] by simp
      then have n: "nth_opt (c # cs) (Suc (length ?r) - 1) = Some (last (c # ?r))"
        using t by (metis diff_Suc_1 last_conv_nth length_Cons list.distinct(1) nth_opt_def
            nth_take lessI)
      have "findall_digits U prev (c # cs) =
          (c # ?r) # findall_digits U (Some (last (c # ?r))) ?rest"
        using m t d n by simp
      with IH True \<open>is_decimal U c\<close> show ?thesis by simp
    next
      case False
      have m: "match_digits_at U prev (c # cs) = None"
      proof (cases "opt_word U prev")
        case True
        then show ?thesis using \<open>is_decimal U c\<close> by (rule match_after_word)
      next
        case False
        with \<open>\<not> (\<not> opt_word U prev \<and> \<not> opt_word U ?nx)\<close> have "opt_word U ?nx" by simp
        with match_run [OF \<open>is_decimal U c\<close> False, of cs] show ?thesis by simp
      qed
      then have "findall_digits U prev (c # cs) = findall_digits U (Some c) cs" by simp
      with skip IH False \<open>is_decimal U c\<close> show ?thesis by simp
    qed
  qed
qed

lemma digit_runs_digits:
  "(p, r, n) \<in> set (digit_runs U prev s) \<Longrightarrow> r \<noteq> [] \<and> (\<forall>c \<in> set r. is_decimal U c)"
proof (induction U prev s rule: digit_runs.induct)
  case (1 U prev)
  then show ?case by simp
next
  case (2 U prev c cs)
  show ?case
  proof (cases "is_decimal U c")
    case False
    with 2 show ?thesis by simp
  next
    case True
    with 2(3) have "(p, r, n) = (prev, c # takeWhile (is_decimal U) cs,
              (case dropWhile (is_decimal U) cs of [] \<Rightarrow> None | x # xs \<Rightarrow> Some x)) \<or>
      (p, r, n) \<in> set (digit_runs U (Some (last (c # takeWhile (is_decimal U) cs)))
               (dropWhile (is_decimal U) cs))"
      by simp
    then show ?thesis
    proof
      assume "(p, r, n) = (prev, c # takeWhile (is_decimal U) cs,
              (case dropWhile (is_decimal U) cs of [] \<Rightarrow> None | x # xs \<Rightarrow> Some x))"
      then have "r = c # takeWhile (is_decimal U) cs" by simp
      with True show ?thesis by (auto dest: set_takeWhileD)
    next
      assume "(p, r, n) \<in> set (digit_runs U (Some (last (c # takeWhile (is_decimal U) cs)))
               (dropWhile (is_decimal U) cs))"
      with 2(1) [OF True] show ?thesis by simp
    qed
  qed
qed

lemma bounded_runs_digits:
  assumes "r \<in> set (bounded_runs U s)"
  shows "r \<noteq> [] \<and> (\<forall>c \<in> set r. is_decimal U c)"
proof -
  from assms obtain p n where "(p, r, n) \<in> set (digit_runs U None s)"
    by (auto simp: bounded_runs_def)
  then show ?thesis by (rule digit_runs_digits)
qed

lemma py_int_run:
  assumes "r \<noteq> []" "\<forall>c \<in> set r. is_decimal U c"
  shows "py_int U r =
     (if length r \<le> int_max_str_digits then Inr (run_number U r) else Inl ValueError)"
  using assms(1) digits_value_foldl [OF assms(2), of 0]
  by (simp add: py_int_def run_number_def)

lemma collect_indices_runs:
  "\<forall>r \<in> set rs. r \<noteq> [] \<and> (\<forall>c \<in> set r. is_decimal U c) \<Longrightarrow>
   collect_indices U n rs =
     filter (\<lambda>i. 0 \<le> i \<and> i < int n)
       (map (\<lambda>r. run_number U r - 1) (filter (\<lambda>r. length r \<le> int_max_str_digits) rs))"
proof (induction rs)
  case Nil
  show ?case by simp
next
  case (Cons r rs)
  then have "py_int U r =
     (if length r \<le> int_max_str_digits then Inr (run_number U r) else Inl ValueError)"
    by (simp add: py_int_run)
  with Cons show ?case by (simp add: Let_def)
qed

lemma py_slice_prefix:
  "py_slice xs 0 k = (if 0 \<le> k then take (nat k) xs else take (length xs - nat (- k)) xs)"
proof (cases "0 \<le> k")
  case True
  then show ?thesis by (simp add: py_slice_take)
next
  case False
  then have "nat (int (length xs) + k) = length xs - nat (- k)" by simp
  with False show ?thesis by (simp add: py_slice_def slice_bound_def)
qed

lemma select_indices_spec: "select_indices U t n k = spec_indices U t n k"
proof -
  have f: "findall_digits U None t = bounded_runs U t"
    unfolding bounded_runs_def by (rule findall_runs)
  have d: "\<forall>r \<in> set (bounded_runs U t). r \<noteq> [] \<and> (\<forall>c \<in> set r. is_decimal U c)"
  proof
    fix r assume "r \<in> set (bounded_runs U t)"
    then show "r \<noteq> [] \<and> (\<forall>c \<in> set r. is_decimal U c)" by (rule bounded_runs_digits)
  qed
  have c: "collect_indices U n (bounded_runs U t) =
      filter (\<lambda>i. 0 \<le> i \<and> i < int n)
        (map (\<lambda>r. run_number U r - 1)
           (filter (\<lambda>r. length r \<le> int_max_str_digits) (bounded_runs U t)))"
    using d by (rule collect_indices_runs)
  show ?thesis
    unfolding select_indices_def spec_indices_def Let_def f c py_slice_prefix ..
qed

lemma collect_indices_range:
  "i \<in> set (collect_indices U n ms) \<Longrightarrow> 0 \<le> i \<and> i < int n"
  by (induction ms) (auto simp: Let_def split: sum.splits if_splits)

lemma py_slice_subset: "i \<in> set (py_slice xs a b) \<Longrightarrow> i \<in> set xs"
  unfolding py_slice_def by (blast dest: in_set_dropD in_set_takeD)

lemma select_indices_range:
  "\<forall>i \<in> set (select_indices U t n k). 0 \<le> i \<and> i < int n"
proof
  fix i assume i: "i \<in> set (select_indices U t n k)"
  let ?c = "py_slice (collect_indices U n (findall_digits U None t)) 0 k"
  show "0 \<le> i \<and> i < int n"
  proof (cases "?c = []")
    case True
    with i have "i \<in> set (map int [0 ..< nat (min k (int n))])"
      by (simp add: select_indices_def Let_def)
    then show ?thesis by auto
  next
    case False
    with i have "i \<in> set ?c" by (simp add: select_indices_def Let_def)
    then have "i \<in> set (collect_indices U n (findall_digits U None t))"
      by (rule py_slice_subset)
    then show ?thesis by (rule collect_indices_range)
  qed
qed

lemma build_assessments_records:
  "\<forall>i \<in> set idxs. 0 \<le> i \<and> i < int (length S) \<Longrightarrow>
   build_assessments U S idxs = expanded_records U (map (\<lambda>i. S ! nat i) idxs)"
  by (induction idxs) (simp_all add: py_index_def)

lemma first_products:
  "m \<le> length S \<Longrightarrow> map (\<lambda>i. S ! nat i) (map int [0 ..< m]) = take m S"
  by (simp add: list_eq_iff_nth_eq)

lemma example_indices:
  "spec_indices example_ucd (py ''3, 1, 99, 2'') 5 5 = [2, 0, 1]"
  by (simp add: spec_indices_def bounded_runs_def run_number_def py_def
      is_decimal_def digit_value_def example_ucd_def opt_word_def is_word_def
      latin1_alnum_def int_max_str_digits_def)

lemma api_cases:
  assumes "get_products W = Inr products"
    and "format_for_llm R (random_sample W products (min 50 (length products))) 30 = Inr text"
  shows "\<forall>e. llm_invoke W (Prompt_API q k text) = Inl e \<longrightarrow>
            recommend_assessment_api_format R W q k = Inr (api_error_fallback R e)"
    and "\<forall>c. llm_invoke W (Prompt_API q k text) = Inr c \<longrightarrow>
            recommend_assessment_api_format R W q k =
              Inr (case expanded_records (unicode R)
                          (map (\<lambda>i. random_sample W products (min 50 (length products)) ! nat i)
                             (select_indices (unicode R) (py_strip c)
                                (length (random_sample W products (min 50 (length products)))) k)) of
                     Inr xs \<Rightarrow> JObj [(py ''recommended_assessments'', JArr xs)]
                   | Inl e \<Rightarrow> api_error_fallback R e)"
    and "\<forall>c. llm_invoke W (Prompt_API q k text) = Inr c \<and>
            py_slice (collect_indices (unicode R)
                        (length (random_sample W products (min 50 (length products))))
                        (findall_digits (unicode R) None (py_strip c))) 0 k = [] \<longrightarrow>
            recommend_assessment_api_format R W q k =
              Inr (case expanded_records (unicode R)
                          (take (nat (min k (int (length (random_sample W products
                                                            (min 50 (length products)))))))
                             (random_sample W products (min 50 (length products)))) of
                     Inr xs \<Rightarrow> JObj [(py ''recommended_assessments'', JArr xs)]
                   | Inl e \<Rightarrow> api_error_fallback R e)"
proof -
  let ?S = "random_sample W products (min 50 (length products))"
  note r = api_reached [OF assms, of q k]
  show "\<forall>e. llm_invoke W (Prompt_API q k text) = Inl e \<longrightarrow>
            recommend_assessment_api_format R W q k = Inr (api_error_fallback R e)"
    by (simp add: r api_try_def)
  have two: "recommend_assessment_api_format R W q k =
      Inr (case expanded_records (unicode R)
                  (map (\<lambda>i. ?S ! nat i) (select_indices (unicode R) (py_strip c) (length ?S) k)) of
             Inr xs \<Rightarrow> JObj [(py ''recommended_assessments'', JArr xs)]
           | Inl e \<Rightarrow> api_error_fallback R e)"
    if c: "llm_invoke W (Prompt_API q k text) = Inr c" for c
  proof -
    let ?idx = "select_indices (unicode R) (py_strip c) (length ?S) k"
    have b: "build_assessments (unicode R) ?S ?idx =
        expanded_records (unicode R) (map (\<lambda>i. ?S ! nat i) ?idx)"
      using select_indices_range by (rule build_assessments_records)
    show ?thesis
      by (cases "expanded_records (unicode R) (map (\<lambda>i. ?S ! nat i) ?idx)")
         (simp_all add: r api_try_def c Let_def b)
  qed
  then show "\<forall>c. llm_invoke W (Prompt_API q k text) = Inr c \<longrightarrow>
            recommend_assessment_api_format R W q k =
              Inr (case expanded_records (unicode R)
                          (map (\<lambda>i. ?S ! nat i)
                             (select_indices (unicode R) (py_strip c) (length ?S) k)) of
                     Inr xs \<Rightarrow> JObj [(py ''recommended_assessments'', JArr xs)]
                   | Inl e \<Rightarrow> api_error_fallback R e)"
    by simp
  show "\<forall>c. llm_invoke W (Prompt_API q k text) = Inr c \<and>
            py_slice (collect_indices (unicode R) (length ?S)
                        (findall_digits (unicode R) None (py_strip c))) 0 k = [] \<longrightarrow>
            recommend_assessment_api_format R W q k =
              Inr (case expanded_records (unicode R) (take (nat (min k (int (length ?S)))) ?S) of
                     Inr xs \<Rightarrow> JObj [(py ''recommended_assessments'', JArr xs)]
                   | Inl e \<Rightarrow> api_error_fallback R e)"
  proof (intro allI impI, elim conjE)
    fix c
    assume c: "llm_invoke W (Prompt_API q k text) = Inr c"
      and e: "py_slice (collect_indices (unicode R) (length ?S)
                        (findall_digits (unicode R) None (py_strip c))) 0 k = []"
    have s: "select_indices (unicode R) (py_strip c) (length ?S) k =
        map int [0 ..< nat (min k (int (length ?S)))]"
      by (simp add: select_indices_def Let_def e)
    have "nat (min k (int (length ?S))) \<le> length ?S" by simp
    then have f: "map (\<lambda>i. ?S ! nat i) (map int [0 ..< nat (min k (int (length ?S)))]) =
        take (nat (min k (int (length ?S)))) ?S"
      by (rule first_products)
    from two [OF c] show "recommend_assessment_api_format R W q k =
              Inr (case expanded_records (unicode R) (take (nat (min k (int (length ?S)))) ?S) of
                     Inr xs \<Rightarrow> JObj [(py ''recommended_assessments'', JArr xs)]
                   | Inl e \<Rightarrow> api_error_fallback R e)"
      unfolding s f .
  qed
qed

lemma example_unicode: "unicode example_ui_runtime = example_ucd"
  by (simp add: example_ui_runtime_def example_runtime_def)

lemma example_length: "length example_dataset = 5"
  by (simp add: example_dataset_def)

lemma example_strip:
  "py_strip (py ''3, 1, 99, 2'') = py ''3, 1, 99, 2''"
  "py_strip (py ''item3, item1'') = py ''item3, item1''"
  "py_strip (py ''No match'') = py ''No match''"
  by (simp_all add: py_strip_def py_def is_space_def)

lemma plain_record:
  "extract_product_api_format U (plain_product name link) =
     Inr (example_record link ''A test.'' 60 ''Knowledge & Skills'')"
  by (simp add: extract_product_api_format_def extract_duration_def extract_test_types_def
      plain_product_def example_record_def py_def)

lemma java_record:
  "extract_product_api_format example_ucd example_product =
     Inr (example_record ''https://www.shl.com/products/java-8/'' ''Java 8 skills'' 30 ''K'')"
  unfolding extract_product_api_format_def example_duration
  by (simp add: extract_test_types_def example_product_def example_record_def py_def)

lemma adjacent_indices:
  "spec_indices example_ucd (py ''item3, item1'') 5 2 = [0, 1]"
  by (simp add: spec_indices_def bounded_runs_def run_number_def py_def
      is_decimal_def digit_value_def example_ucd_def opt_word_def is_word_def
      latin1_alnum_def int_max_str_digits_def upt_rec)

text \<open>
  C5. The claim: every run of digits of the reply is extracted. The pattern is
  \<^verbatim>\<open>\b(\d+)\b\<close>, so a run that touches a letter, a digit or an underscore is not
  matched: for the reply \<^verbatim>\<open>item3, item1\<close>, a sample of five and k = 2, no index is
  found, and the service returns the first two products of the sample, not the third
  and the first.
\<close>

theorem C5_adjacent_run_not_extracted:
  "select_indices example_ucd (py ''item3, item1'') 5 2 = [0, 1] \<and>
   recommend_assessment_api_format example_ui_runtime
     (example_world (Inr (py ''item3, item1''))) (py ''Java developer'') 2 =
     Inr (JObj [(py ''recommended_assessments'',
        JArr [example_record ''https://www.shl.com/products/java-8/'' ''Java 8 skills'' 30 ''K'',
              example_record ''https://www.shl.com/products/python/'' ''A test.'' 60
                ''Knowledge & Skills''])])"
proof
  show i: "select_indices example_ucd (py ''item3, item1'') 5 2 = [0, 1]"
    by (simp only: select_indices_spec adjacent_indices)
  let ?W = "example_world (Inr (py ''item3, item1''))"
  obtain ptext where f: "format_for_llm example_ui_runtime
       (random_sample ?W example_dataset (min 50 (length example_dataset))) 30 = Inr ptext"
    by (rule example_prompt)
  have c: "llm_invoke ?W (Prompt_API (py ''Java developer'') 2 ptext) = Inr (py ''item3, item1'')"
    by (rule example_world_simps)
  from api_cases(2) [OF example_world_simps(1) f, of "py ''Java developer''" 2,
      THEN spec, of "py ''item3, item1''"] c
  have "recommend_assessment_api_format example_ui_runtime ?W (py ''Java developer'') 2 =
      Inr (case expanded_records (unicode example_ui_runtime)
                  (map (\<lambda>i. random_sample ?W example_dataset (min 50 (length example_dataset)) ! nat i)
                     (select_indices (unicode example_ui_runtime) (py_strip (py ''item3, item1''))
                        (length (random_sample ?W example_dataset
                                   (min 50 (length example_dataset)))) 2)) of
             Inr xs \<Rightarrow> JObj [(py ''recommended_assessments'', JArr xs)]
           | Inl e \<Rightarrow> api_error_fallback example_ui_runtime e)"
    by (rule mp)
  then show "recommend_assessment_api_format example_ui_runtime ?W (py ''Java developer'') 2 =
     Inr (JObj [(py ''recommended_assessments'',
        JArr [example_record ''https://www.shl.com/products/java-8/'' ''Java 8 skills'' 30 ''K'',
              example_record ''https://www.shl.com/products/python/'' ''A test.'' 60
                ''Knowledge & Skills''])])"
    unfolding example_sample
    unfolding example_unicode example_strip example_length i
    by (simp add: example_dataset_def plain_record java_record)
qed

text \<open>
  C5, amended. For every raw reply in index mode, the service takes the runs of digits
  that stand between word boundaries (no letter, digit or underscore before or behind
  them), passes over a run of more than 4300 digits, converts each of the others from
  1-based to 0-based, discards the indices outside the sample, and cuts the rest to the
  first k (a negative k cuts from the end); when nothing is left it takes the first
  min(k, sample size) products. It returns the expanded records of the products at
  those indices, in that order, or the error record if one of those records cannot be
  built. For the reply \<^verbatim>\<open>3, 1, 99, 2\<close>, a sample of five and k = 5 the indices are 2, 0, 1.
\<close>

theorem C5_indices_resolved:
  assumes "get_products W = Inr products"
    and "format_for_llm R (random_sample W products (min 50 (length products))) 30 = Inr text"
    and "llm_invoke W (Prompt_API q k text) = Inr c"
  shows "select_indices U t n j = spec_indices U t n j \<and>
         recommend_assessment_api_format R W q k =
           Inr (case expanded_records (unicode R)
                       (map (\<lambda>i. random_sample W products (min 50 (length products)) ! nat i)
                          (spec_indices (unicode R) (py_strip c)
                             (length (random_sample W products (min 50 (length products)))) k)) of
                  Inr xs \<Rightarrow> JObj [(py ''recommended_assessments'', JArr xs)]
                | Inl e \<Rightarrow> api_error_fallback R e)"
proof
  show "select_indices U t n j = spec_indices U t n j" by (rule select_indices_spec)
  from api_cases(2) [OF assms(1,2), of q k, THEN spec, of c] assms(3)
  have "recommend_assessment_api_format R W q k =
      Inr (case expanded_records (unicode R)
                  (map (\<lambda>i. random_sample W products (min 50 (length products)) ! nat i)
                     (select_indices (unicode R) (py_strip c)
                        (length (random_sample W products (min 50 (length products)))) k)) of
             Inr xs \<Rightarrow> JObj [(py ''recommended_assessments'', JArr xs)]
           | Inl e \<Rightarrow> api_error_fallback R e)"
    by (rule mp)
  then show "recommend_assessment_api_format R W q k =
           Inr (case expanded_records (unicode R)
                       (map (\<lambda>i. random_sample W products (min 50 (length products)) ! nat i)
                          (spec_indices (unicode R) (py_strip c)
                             (length (random_sample W products (min 50 (length products)))) k)) of
                  Inr xs \<Rightarrow> JObj [(py ''recommended_assessments'', JArr xs)]
                | Inl e \<Rightarrow> api_error_fallback R e)"
    unfolding select_indices_spec .
qed

theorem C5_indices_resolved_witness:
  "select_indices example_ucd (py ''3, 1, 99, 2'') 5 5 = [2, 0, 1] \<and>
   recommend_assessment_api_format example_ui_runtime
     (example_world (Inr (py ''3, 1, 99, 2''))) (py ''Java developer'') 5 =
     Inr (JObj [(py ''recommended_assessments'',
        JArr [example_record ''https://www.shl.com/products/sql/'' ''A test.'' 60
                ''Knowledge & Skills'',
              example_record ''https://www.shl.com/products/java-8/'' ''Java 8 skills'' 30 ''K'',
              example_record ''https://www.shl.com/products/python/'' ''A test.'' 60
                ''Knowledge & Skills''])])"
proof -
  let ?W = "example_world (Inr (py ''3, 1, 99, 2''))"
  obtain ptext where f: "format_for_llm example_ui_runtime
       (random_sample ?W example_dataset (min 50 (length example_dataset))) 30 = Inr ptext"
    by (rule example_prompt)
  have c: "llm_invoke ?W (Prompt_API (py ''Java developer'') 5 ptext) = Inr (py ''3, 1, 99, 2'')"
    by (rule example_world_simps)
  note T = C5_indices_resolved [OF example_world_simps(1) f c,
      of example_ucd "py ''3, 1, 99, 2''" 5 5]
  from T [THEN conjunct1]
  have 1: "select_indices example_ucd (py ''3, 1, 99, 2'') 5 5 = [2, 0, 1]"
    by (simp only: example_indices)
  from T [THEN conjunct2]
  have 2: "recommend_assessment_api_format example_ui_runtime ?W (py ''Java developer'') 5 =
     Inr (JObj [(py ''recommended_assessments'',
        JArr [example_record ''https://www.shl.com/products/sql/'' ''A test.'' 60
                ''Knowledge & Skills'',
              example_record ''https://www.shl.com/products/java-8/'' ''Java 8 skills'' 30 ''K'',
              example_record ''https://www.shl.com/products/python/'' ''A test.'' 60
                ''Knowledge & Skills''])])"
    unfolding example_sample
    unfolding example_unicode example_strip example_length example_indices
    by (simp add: example_dataset_def plain_record java_record)
  from 1 2 show ?thesis by (rule conjI)
qed

section \<open>Returning normally\<close>

lemma ui_outcomes:
  assumes "get_products W = Inr products"
    and "format_for_llm R (random_sample W products (min 50 (length products))) 30 = Inr text"
  shows "recommend_assessment R W q k = Inr error_fallback \<or>
         recommend_assessment R W q k = Inr no_suitable_fallback \<or>
         (\<exists>c sp results cleaned.
            llm_invoke W (Prompt_UI q k text) = Inr c \<and> bracket_span c = Some sp \<and>
            json_loads R sp = Inr results \<and>
            bind (py_iter results) clean_results = Inr cleaned \<and>
            recommend_assessment R W q k = Inr (JArr cleaned))"
proof -
  note u = ui_cases [OF assms, of q k]
  show ?thesis
  proof (cases "llm_invoke W (Prompt_UI q k text)")
    case (Inl e)
    with u(1) show ?thesis by simp
  next
    case (Inr c)
    note c = this
    show ?thesis
    proof (cases "bracket_span c")
      case None
      with u(2) c show ?thesis by simp
    next
      case (Some sp)
      note sp = this
      show ?thesis
      proof (cases "json_loads R sp")
        case (Inl e)
        with u(3) c sp have "recommend_assessment R W q k = Inr error_fallback" by blast
        then show ?thesis by simp
      next
        case (Inr results)
        note results = this
        show ?thesis
        proof (cases "bind (py_iter results) clean_results")
          case (Inl e)
          with u(4) c sp results have "recommend_assessment R W q k = Inr error_fallback"
            by blast
          then show ?thesis by simp
        next
          case (Inr cleaned)
          with u(5) c sp results have "recommend_assessment R W q k = Inr (JArr cleaned)"
            by blast
          with c sp results Inr have
            "llm_invoke W (Prompt_UI q k text) = Inr c \<and> bracket_span c = Some sp \<and>
            json_loads R sp = Inr results \<and>
            bind (py_iter results) clean_results = Inr cleaned \<and>
            recommend_assessment R W q k = Inr (JArr cleaned)"
            by simp
          then have "\<exists>c sp results cleaned.
            llm_invoke W (Prompt_UI q k text) = Inr c \<and> bracket_span c = Some sp \<and>
            json_loads R sp = Inr results \<and>
            bind (py_iter results) clean_results = Inr cleaned \<and>
            recommend_assessment R W q k = Inr (JArr cleaned)"
            by (intro exI)
          then show ?thesis by (intro disjI2)
        qed
      qed
    qed
  qed
qed

text \<open>
  C2, as stated, fails: for the reply \<^verbatim>\<open>[]\<close>, a valid JSON array, the UI shape returns
  the empty list, for a query and k = 5.
\<close>

theorem C2_empty_array_returned:
  "recommend_assessment example_ui_runtime (example_world (Inr (py ''[]'')))
     (py ''Java developer'') 5 = Inr (JArr [])"
proof -
  obtain ptext where f: "format_for_llm example_ui_runtime
       (random_sample (example_world (Inr (py ''[]''))) example_dataset
          (min 50 (length example_dataset))) 30 = Inr ptext"
    by (rule example_prompt)
  have o: "\<forall>item \<in> set []. is_object item" by simp
  from recommend_assessment_array [OF example_world_simps(1) f example_world_simps(2)
      spans(3) example_loads_simps(1) o]
  show ?thesis by simp
qed

lemma no_match_span: "bracket_span (py ''No match'') = None"
  by (simp add: bracket_span_def py_def)

lemma no_match_indices:
  "py_slice (collect_indices example_ucd 5 (findall_digits example_ucd None (py ''No match'')))
     0 2 = []"
  by (simp add: findall_runs py_def is_decimal_def digit_value_def example_ucd_def
      py_slice_def slice_bound_def)

text \<open>
  C2, amended. For every query and every k, once the dataset has loaded and the text
  of the products has been built, both functions return normally, whatever the LLM
  call, the parsing of the reply and the decoding do.

  The UI shape returns one of the two fallback lists of one item, or a cleaned array:
  the error list when the LLM call raises, when the bracketed span of the reply does
  not decode, and when walking the decoded value raises; the list for no suitable
  assessment when the reply has no bracketed span; and otherwise the array cleaned from
  the decoded value, as it is (so it is empty when no item of the decoded array has
  both fields).

  The API shape returns an object with a list: the single error record, which carries
  the text of the exception, when the LLM call raises or a record cannot be built; and
  otherwise the expanded records of the products at the selected indices. When the
  reply leaves no valid index after the cut to k, these are the first min(k, sample
  size) products. The list is not empty when k is at least 1 and the sample is not
  empty.
\<close>

theorem C2_returns_normally:
  assumes "get_products W = Inr products"
    and "format_for_llm R (random_sample W products (min 50 (length products))) 30 = Inr text"
  shows "(recommend_assessment R W q k = Inr error_fallback \<or>
          recommend_assessment R W q k = Inr no_suitable_fallback \<or>
          (\<exists>c sp results cleaned.
             llm_invoke W (Prompt_UI q k text) = Inr c \<and> bracket_span c = Some sp \<and>
             json_loads R sp = Inr results \<and>
             bind (py_iter results) clean_results = Inr cleaned \<and>
             recommend_assessment R W q k = Inr (JArr cleaned))) \<and>
         (\<forall>e. llm_invoke W (Prompt_UI q k text) = Inl e \<longrightarrow>
            recommend_assessment R W q k = Inr error_fallback) \<and>
         (\<forall>c. llm_invoke W (Prompt_UI q k text) = Inr c \<and> bracket_span c = None \<longrightarrow>
            recommend_assessment R W q k = Inr no_suitable_fallback) \<and>
         (\<forall>c sp e. llm_invoke W (Prompt_UI q k text) = Inr c \<and> bracket_span c = Some sp \<and>
            json_loads R sp = Inl e \<longrightarrow>
            recommend_assessment R W q k = Inr error_fallback) \<and>
         (\<forall>c sp results e. llm_invoke W (Prompt_UI q k text) = Inr c \<and>
            bracket_span c = Some sp \<and> json_loads R sp = Inr results \<and>
            bind (py_iter results) clean_results = Inl e \<longrightarrow>
            recommend_assessment R W q k = Inr error_fallback) \<and>
         (\<forall>c sp results cleaned. llm_invoke W (Prompt_UI q k text) = Inr c \<and>
            bracket_span c = Some sp \<and> json_loads R sp = Inr results \<and>
            bind (py_iter results) clean_results = Inr cleaned \<longrightarrow>
            recommend_assessment R W q k = Inr (JArr cleaned)) \<and>
         (\<forall>e. llm_invoke W (Prompt_API q k text) = Inl e \<longrightarrow>
            recommend_assessment_api_format R W q k = Inr (api_error_fallback R e)) \<and>
         (\<forall>c. llm_invoke W (Prompt_API q k text) = Inr c \<longrightarrow>
            recommend_assessment_api_format R W q k =
              Inr (case expanded_records (unicode R)
                          (map (\<lambda>i. random_sample W products (min 50 (length products)) ! nat i)
                             (select_indices (unicode R) (py_strip c)
                                (length (random_sample W products (min 50 (length products)))) k)) of
                     Inr xs \<Rightarrow> JObj [(py ''recommended_assessments'', JArr xs)]
                   | Inl e \<Rightarrow> api_error_fallback R e)) \<and>
         (\<forall>c. llm_invoke W (Prompt_API q k text) = Inr c \<and>
            py_slice (collect_indices (unicode R)
                        (length (random_sample W products (min 50 (length products))))
                        (findall_digits (unicode R) None (py_strip c))) 0 k = [] \<longrightarrow>
            recommend_assessment_api_format R W q k =
              Inr (case expanded_records (unicode R)
                          (take (nat (min k (int (length (random_sample W products
                                                            (min 50 (length products)))))))
                             (random_sample W products (min 50 (length products)))) of
                     Inr xs \<Rightarrow> JObj [(py ''recommended_assessments'', JArr xs)]
                   | Inl e \<Rightarrow> api_error_fallback R e)) \<and>
         (\<exists>xs. recommend_assessment_api_format R W q k =
                  Inr (JObj [(py ''recommended_assessments'', JArr xs)]) \<and>
               (1 \<le> k \<and> random_sample W products (min 50 (length products)) \<noteq> [] \<longrightarrow>
                  xs \<noteq> []))"
proof -
  note u = ui_cases [OF assms, of q k]
  note a = api_cases [OF assms, of q k]
  have t: "recommend_assessment R W q k = Inr error_fallback \<or>
          recommend_assessment R W q k = Inr no_suitable_fallback \<or>
          (\<exists>c sp results cleaned.
             llm_invoke W (Prompt_UI q k text) = Inr c \<and> bracket_span c = Some sp \<and>
             json_loads R sp = Inr results \<and>
             bind (py_iter results) clean_results = Inr cleaned \<and>
             recommend_assessment R W q k = Inr (JArr cleaned))"
    using assms by (rule ui_outcomes)
  obtain xs where
    x: "recommend_assessment_api_format R W q k =
          Inr (JObj [(py ''recommended_assessments'', JArr xs)])"
      "1 \<le> k \<and> random_sample W products (min 50 (length products)) \<noteq> [] \<longrightarrow> xs \<noteq> []"
    using api_list [OF assms, of q k] by blast
  then have "recommend_assessment_api_format R W q k =
                  Inr (JObj [(py ''recommended_assessments'', JArr xs)]) \<and>
               (1 \<le> k \<and> random_sample W products (min 50 (length products)) \<noteq> [] \<longrightarrow>
                  xs \<noteq> [])"
    by simp
  then have n: "\<exists>xs. recommend_assessment_api_format R W q k =
                  Inr (JObj [(py ''recommended_assessments'', JArr xs)]) \<and>
               (1 \<le> k \<and> random_sample W products (min 50 (length products)) \<noteq> [] \<longrightarrow>
                  xs \<noteq> [])"
    by (intro exI)
  from t u(1) u(2) u(3) u(4) u(5) a(1) a(2) a(3) n show ?thesis
    by (intro conjI)
qed

theorem C2_returns_normally_witness:
  "recommend_assessment example_ui_runtime (example_world (Inr (py ''No match'')))
     (py ''Java developer'') 2 = Inr no_suitable_fallback \<and>
   recommend_assessment_api_format example_ui_runtime (example_world (Inr (py ''No match'')))
     (py ''Java developer'') 2 =
     Inr (JObj [(py ''recommended_assessments'',
        JArr [example_record ''https://www.shl.com/products/java-8/'' ''Java 8 skills'' 30 ''K'',
              example_record ''https://www.shl.com/products/python/'' ''A test.'' 60
                ''Knowledge & Skills''])]) \<and>
   recommend_assessment example_ui_runtime
     (example_world (Inl (LibraryError (py ''quota exceeded''))))
     (py ''Java developer'') 2 = Inr error_fallback \<and>
   recommend_assessment_api_format example_ui_runtime
     (example_world (Inl (LibraryError (py ''quota exceeded''))))
     (py ''Java developer'') 2 =
     Inr (JObj [(py ''recommended_assessments'',
        JArr [JObj [(py ''url'', JStr (py ''https://www.shl.com/contact-us/'')),
                    (py ''adaptive_support'', JStr (py ''No'')),
                    (py ''description'',
                       JStr (py ''Error retrieving recommendations: quota exceeded'')),
                    (py ''duration'', JInt 60),
                    (py ''remote_support'', JStr (py ''Yes'')),
                    (py ''test_type'', JArr [JStr (py ''Error'')])]])])"
proof -
  let ?W = "example_world (Inr (py ''No match''))"
  let ?V = "example_world (Inl (LibraryError (py ''quota exceeded'')))"
  let ?q = "py ''Java developer''"
  obtain ptext where f: "format_for_llm example_ui_runtime
       (random_sample ?W example_dataset (min 50 (length example_dataset))) 30 = Inr ptext"
    by (rule example_prompt)
  obtain vtext where g: "format_for_llm example_ui_runtime
       (random_sample ?V example_dataset (min 50 (length example_dataset))) 30 = Inr vtext"
    by (rule example_prompt)
  note T = C2_returns_normally [OF example_world_simps(1) f, of ?q 2]
  note V = C2_returns_normally [OF example_world_simps(1) g, of ?q 2]
  have h1: "llm_invoke ?W (Prompt_UI ?q 2 ptext) = Inr (py ''No match'') \<and>
      bracket_span (py ''No match'') = None"
    by (simp add: example_world_simps no_match_span)
  from T [THEN conjunct2, THEN conjunct2, THEN conjunct1, THEN spec, of "py ''No match''"] h1
  have 1: "recommend_assessment example_ui_runtime ?W ?q 2 = Inr no_suitable_fallback"
    by (rule mp)
  have h2: "llm_invoke ?W (Prompt_API ?q 2 ptext) = Inr (py ''No match'') \<and>
      py_slice (collect_indices (unicode example_ui_runtime)
                  (length (random_sample ?W example_dataset (min 50 (length example_dataset))))
                  (findall_digits (unicode example_ui_runtime) None (py_strip (py ''No match''))))
        0 2 = []"
    unfolding example_sample
    unfolding example_unicode example_strip example_length
    by (simp add: example_world_simps no_match_indices)
  from T [THEN conjunct2, THEN conjunct2, THEN conjunct2, THEN conjunct2, THEN conjunct2,
      THEN conjunct2, THEN conjunct2, THEN conjunct2, THEN conjunct1, THEN spec,
      of "py ''No match''"] h2
  have "recommend_assessment_api_format example_ui_runtime ?W ?q 2 =
      Inr (case expanded_records (unicode example_ui_runtime)
                  (take (nat (min 2 (int (length (random_sample ?W example_dataset
                                                    (min 50 (length example_dataset)))))))
                     (random_sample ?W example_dataset (min 50 (length example_dataset)))) of
             Inr xs \<Rightarrow> JObj [(py ''recommended_assessments'', JArr xs)]
           | Inl e \<Rightarrow> api_error_fallback example_ui_runtime e)"
    by (rule mp)
  then have 2: "recommend_assessment_api_format example_ui_runtime ?W ?q 2 =
     Inr (JObj [(py ''recommended_assessments'',
        JArr [example_record ''https://www.shl.com/products/java-8/'' ''Java 8 skills'' 30 ''K'',
              example_record ''https://www.shl.com/products/python/'' ''A test.'' 60
                ''Knowledge & Skills''])])"
    unfolding example_sample
    unfolding example_unicode example_length
    by (simp add: example_dataset_def plain_record java_record)
  have h3: "llm_invoke ?V (Prompt_UI ?q 2 vtext) = Inl (LibraryError (py ''quota exceeded''))"
    by (rule example_world_simps)
  from V [THEN conjunct2, THEN conjunct1, THEN spec, of "LibraryError (py ''quota exceeded'')"] h3
  have 3: "recommend_assessment example_ui_runtime ?V ?q 2 = Inr error_fallback"
    by (rule mp)
  have h4: "llm_invoke ?V (Prompt_API ?q 2 vtext) = Inl (LibraryError (py ''quota exceeded''))"
    by (rule example_world_simps)
  from V [THEN conjunct2, THEN conjunct2, THEN conjunct2, THEN conjunct2, THEN conjunct2,
      THEN conjunct2, THEN conjunct1, THEN spec, of "LibraryError (py ''quota exceeded'')"] h4
  have "recommend_assessment_api_format example_ui_runtime ?V ?q 2 =
      Inr (api_error_fallback example_ui_runtime (LibraryError (py ''quota exceeded'')))"
    by (rule mp)
  then have 4: "recommend_assessment_api_format example_ui_runtime ?V ?q 2 =
     Inr (JObj [(py ''recommended_assessments'',
        JArr [JObj [(py ''url'', JStr (py ''https://www.shl.com/contact-us/'')),
                    (py ''adaptive_support'', JStr (py ''No'')),
                    (py ''description'',
                       JStr (py ''Error retrieving recommendations: quota exceeded'')),
                    (py ''duration'', JInt 60),
                    (py ''remote_support'', JStr (py ''Yes'')),
                    (py ''test_type'', JArr [JStr (py ''Error'')])]])])"
    by (simp add: api_error_fallback_def example_ui_runtime_def example_runtime_def py_def)
  from 1 2 3 4 show ?thesis by (intro conjI)
qed

end
